theory Spec2Isabelle
  imports Main "HOL-Library.AList"
begin

section \<open>Errors\<close>

text \<open>
  A Go \<open>error\<close> value. \<open>EOF\<close> is \<open>io.EOF\<close> (compared by identity in
  \<open>Server.serve\<close>), \<open>NotExist\<close> is an error for which \<open>os.IsNotExist\<close> holds,
  \<open>Err m\<close> is any other error with message \<open>m\<close> (\<open>errors.New m\<close>). \<open>Panic m\<close> is
  not an error value: the goroutine panics (a failed type assertion) and the function
  does not return.
\<close>

datatype error = EOF | NotExist string | Err string | Panic string

fun Error :: "error \<Rightarrow> string" where
  "Error EOF = ''EOF''"
| "Error (NotExist p) = ''open '' @ p @ '': no such file or directory''"
| "Error (Err m) = m"
| "Error (Panic m) = m"

fun IsNotExist :: "error \<Rightarrow> bool" where
  "IsNotExist (NotExist p) = True"
| "IsNotExist e = False"

text \<open>\<open>errors.Wrap err msg\<close> of github.com/pkg/errors: the message is \<open>msg: cause\<close>.\<close>

definition Wrap :: "error \<Rightarrow> string \<Rightarrow> error" where
  "Wrap err msg = Err (msg @ '': '' @ Error err)"

section \<open>Paths\<close>

text \<open>
  \<open>path.Join\<close> of the Go standard library: the non-empty elements are joined with a
  slash and the result is cleaned (\<open>path.Clean\<close>): empty and \<open>.\<close> components are
  dropped, a \<open>..\<close> component removes the component before it (it is dropped at the
  root and kept at the front of a relative path).
\<close>

fun splitSlash :: "string \<Rightarrow> string list" where
  "splitSlash [] = [[]]"
| "splitSlash (c # cs) =
     (if c = CHR ''/'' then [] # splitSlash cs
      else (case splitSlash cs of
              [] \<Rightarrow> [[c]]
            | x # xs \<Rightarrow> (c # x) # xs))"

fun cleanComps :: "bool \<Rightarrow> string list \<Rightarrow> string list \<Rightarrow> string list" where
  "cleanComps rooted acc [] = rev acc"
| "cleanComps rooted acc (c # cs) =
     (if c = [] \<or> c = ''.'' then cleanComps rooted acc cs
      else if c = ''..'' then
        (case acc of
           [] \<Rightarrow> if rooted then cleanComps rooted [] cs
                 else cleanComps rooted [''..''] cs
         | a # as \<Rightarrow> if a = ''..'' then cleanComps rooted (''..'' # acc) cs
                     else cleanComps rooted as cs)
      else cleanComps rooted (c # acc) cs)"

fun joinSlash :: "string list \<Rightarrow> string" where
  "joinSlash [] = []"
| "joinSlash [x] = x"
| "joinSlash (x # y # ys) = x @ ''/'' @ joinSlash (y # ys)"

definition Clean :: "string \<Rightarrow> string" where
  "Clean p =
     (if p = [] then ''.''
      else let rooted = (hd p = CHR ''/'');
               body = joinSlash (cleanComps rooted [] (splitSlash p))
           in if rooted then CHR ''/'' # body
              else if body = [] then ''.'' else body)"

definition pathJoin :: "string list \<Rightarrow> string" where
  "pathJoin elem =
     (let es = filter (\<lambda>e. e \<noteq> []) elem
      in if es = [] then [] else Clean (joinSlash es))"

section \<open>Collaborators\<close>

text \<open>
  The calls the checkpoint service makes to its collaborators, in the order it makes them.
  \<open>MkdirAll target\<close> is \<open>os.MkdirAll(target, 0755)\<close>; \<open>Prepare\<close> and \<open>Remove\<close>
  are the methods of \<open>cp.Provider\<close>; \<open>Add\<close> is the method of \<open>cp.ReferenceManager\<close>.
\<close>

datatype event =
    MkdirAll string
  | Prepare string string
  | Remove string
  | Add string

text \<open>The provider selected by \<open>initProvider\<close>.\<close>

datatype ProviderKind = Ccfs | Containerd

text \<open>
  \<open>config\<close> of the checkpoint service. \<open>Config\<close> is the \<open>interface{}\<close> field: \<open>Some raw\<close>
  when it holds the pointer to the \<open>json.RawMessage\<close> with bytes \<open>raw\<close>, \<open>None\<close> when
  it holds anything else.
\<close>

record config =
  Type :: string
  Config :: "string option"

text \<open>
  \<open>ns.NamespaceType\<close>: the three constants the service uses, and every other value of
  the underlying type that a request can carry.
\<close>

datatype NamespaceType = UTS | IPC | MNT | OtherNamespace nat

record serviceConfig =
  Capacity :: "NamespaceType \<rightharpoonup> int"
  ExtraArgs :: "NamespaceType \<rightharpoonup> string list"

text \<open>
  The environment of the daemon: the operating system, the JSON decoder and the provider
  packages, none of which is part of the services. Each field gives the outcome of one
  call; the outcome of a call with an effect may depend on the calls made before it.
  \<^item> \<open>os_Stat\<close>, \<open>ioutil_ReadFile\<close>, \<open>os_MkdirAll\<close>, \<open>os_Getpid\<close>: the operating system;
  \<^item> \<open>json_Unmarshal_config content c\<close>: \<open>json.Unmarshal(content, &c)\<close> on the checkpoint
    config: the error and \<open>c\<close> as the decoder leaves it;
  \<^item> \<open>json_Unmarshal_serviceConfig content\<close>: the same on the namespace config, into an
    empty \<open>serviceConfig\<close>;
  \<^item> \<open>json_Unmarshal_provider k raw\<close>: decoding the provider's own config;
  \<^item> \<open>NewProvider k raw\<close>: \<open>ccfs.NewProvider\<close> and \<open>containerd.NewProvider\<close> on the
    config decoded from \<open>raw\<close>;
  \<^item> \<open>provider_Prepare\<close>, \<open>provider_Remove\<close>: the provider's methods.
\<close>

record env =
  os_Stat :: "string \<Rightarrow> error option"
  ioutil_ReadFile :: "string \<Rightarrow> error + string"
  os_MkdirAll :: "event list \<Rightarrow> string \<Rightarrow> error option"
  os_Getpid :: int
  json_Unmarshal_config :: "string \<Rightarrow> config \<Rightarrow> error option \<times> config"
  json_Unmarshal_serviceConfig :: "string \<Rightarrow> error + serviceConfig"
  json_Unmarshal_provider :: "ProviderKind \<Rightarrow> string \<Rightarrow> error option"
  NewProvider :: "ProviderKind \<Rightarrow> string \<Rightarrow> error option"
  provider_Prepare :: "event list \<Rightarrow> string \<Rightarrow> string \<Rightarrow> error option"
  provider_Remove :: "event list \<Rightarrow> string \<Rightarrow> error option"

section \<open>Checkpoint service\<close>

text \<open>
  The \<open>service\<close> struct. \<open>targets\<close> is the key set of the Go map, as the list of its
  keys in the order \<open>range\<close> visits them (any order: Go fixes none); \<open>referenceMgr\<close>
  says whether the field is non-nil. \<open>calls\<close> is not a field of the struct: it records
  the calls made to the collaborators so far. The mutex is held over the whole of the
  body of \<open>Get\<close> that touches \<open>targets\<close>, so concurrent calls run one after another and
  a run of the service is a sequence of calls.
\<close>

record service =
  root :: string
  provider :: ProviderKind
  referenceMgr :: bool
  router :: "string list"
  targets :: "string list"
  calls :: "event list"

definition service_Get :: "env \<Rightarrow> service \<Rightarrow> string \<Rightarrow> (error + string) \<times> service" where
  "service_Get e s ref =
     (if ref = [] then (Inl (Err ''empty ref''), s)
      else
        let target = pathJoin [root s, ref] in
        if target \<in> set (targets s) then (Inr target, s)
        else
          (case os_MkdirAll e (calls s) target of
             Some err \<Rightarrow>
               (Inl (Wrap err (''failed to create dir '' @ target)),
                s\<lparr>calls := calls s @ [MkdirAll target]\<rparr>)
           | None \<Rightarrow>
               (case provider_Prepare e (calls s @ [MkdirAll target]) ref target of
                  Some err \<Rightarrow>
                    (Inl err,
                     s\<lparr>calls := calls s @ [MkdirAll target, Prepare ref target]\<rparr>)
                | None \<Rightarrow>
                    (Inr target,
                     s\<lparr>calls := calls s @ [MkdirAll target, Prepare ref target],
                        targets := targets s @ [target]\<rparr>))))"

text \<open>
  The loop of \<open>Stop\<close> over the targets: every target is removed, a failure is recorded
  in \<open>failed\<close> and the loop goes on.
\<close>

fun removeTargets :: "env \<Rightarrow> string list \<Rightarrow> event list \<Rightarrow> string list \<Rightarrow> string list \<times> event list" where
  "removeTargets e [] cs failed = (failed, cs)"
| "removeTargets e (t # ts) cs failed =
     (case provider_Remove e cs t of
        Some err \<Rightarrow>
          removeTargets e ts (cs @ [Remove t])
            (failed @ [''remove '' @ t @ '' with error '' @ Error err])
      | None \<Rightarrow> removeTargets e ts (cs @ [Remove t]) failed)"

text \<open>\<open>strings.Join(failed, ";")\<close>.\<close>

fun stringsJoin :: "string list \<Rightarrow> string \<Rightarrow> string" where
  "stringsJoin [] sep = []"
| "stringsJoin [x] sep = x"
| "stringsJoin (x # y # ys) sep = x @ sep @ stringsJoin (y # ys) sep"

definition service_Stop :: "env \<Rightarrow> service \<Rightarrow> error option \<times> service" where
  "service_Stop e s =
     (case removeTargets e (targets s) (calls s) [] of
        (failed, cs) \<Rightarrow>
          (if length failed \<noteq> 0 then Some (Err (stringsJoin failed '';'')) else None,
           s\<lparr>calls := cs\<rparr>))"

section \<open>Connections\<close>

text \<open>The values of \<open>interface{}\<close> that cross the wire in \<open>Arg\<close> and \<open>Info\<close>.\<close>

datatype Iface = INil | IString string | IInt int

text \<open>
  \<open>cerm.ServiceType\<close>: the two services the server registers, and every other value a
  connection can send.
\<close>

datatype ServiceType = NamespaceService | CheckpointService | OtherService nat

record GetNamespaceRequest =
  T :: NamespaceType
  Arg :: Iface

record PutNamespaceRequest =
  PutT :: NamespaceType
  ID :: int

record PutNamespaceResponse =
  Error_field :: string

record GetNamespaceResponse =
  NSId :: int
  Pid :: int
  Fd :: int
  Info :: Iface

record GetCheckpointRequest =
  Ref :: string

record GetCheckpointResponse =
  Path :: string

text \<open>One length-prefixed message on a connection; \<open>Malformed\<close> is one that does not decode.\<close>

datatype frame =
    ServiceTypeFrame ServiceType
  | StringFrame string
  | GetNamespaceRequestFrame GetNamespaceRequest
  | PutNamespaceRequestFrame PutNamespaceRequest
  | GetCheckpointRequestFrame GetCheckpointRequest
  | GetNamespaceResponseFrame GetNamespaceResponse
  | PutNamespaceResponseFrame PutNamespaceResponse
  | GetCheckpointResponseFrame GetCheckpointResponse
  | Malformed

text \<open>
  A \<open>net.Conn\<close> seen from the daemon: \<open>inbox\<close> holds the messages the peer sends, in
  order, and the stream ends after them; \<open>outbox\<close> holds the messages the daemon has
  written; \<open>closed\<close> says that the daemon has called \<open>Close\<close>; \<open>broken\<close> says that
  writes fail (the peer is gone).
\<close>

record conn =
  inbox :: "frame list"
  outbox :: "frame list"
  closed :: bool
  broken :: bool

definition Close :: "conn \<Rightarrow> conn" where
  "Close c = c\<lparr>closed := True\<rparr>"

text \<open>
  Modelled from the spec: the package \<open>utils\<close> (\<open>ReceiveServiceType\<close>, \<open>ReceiveData\<close>,
  \<open>ReceiveObject\<close>, \<open>SendWithSizePrefix\<close>, \<open>SendObject\<close>) is missing. A receive reads
  one message: it fails on a closed connection, returns \<open>io.EOF\<close> at the end of the
  stream, and fails with a codec error when the message is not of the type asked for.
  A send writes one message and fails on a closed or broken connection.
\<close>

definition receive :: "conn \<Rightarrow> (error + frame) \<times> conn" where
  "receive c =
     (if closed c then (Inl (Err ''use of closed network connection''), c)
      else (case inbox c of
              [] \<Rightarrow> (Inl EOF, c)
            | f # fs \<Rightarrow> (Inr f, c\<lparr>inbox := fs\<rparr>)))"

definition codecError :: error where
  "codecError = Err ''codec error''"

definition ReceiveServiceType :: "conn \<Rightarrow> (error + ServiceType) \<times> conn" where
  "ReceiveServiceType c =
     (case receive c of
        (Inl err, c') \<Rightarrow> (Inl err, c')
      | (Inr f, c') \<Rightarrow>
          (case f of ServiceTypeFrame t \<Rightarrow> (Inr t, c') | _ \<Rightarrow> (Inl codecError, c')))"

definition ReceiveString :: "conn \<Rightarrow> (error + string) \<times> conn" where
  "ReceiveString c =
     (case receive c of
        (Inl err, c') \<Rightarrow> (Inl err, c')
      | (Inr f, c') \<Rightarrow>
          (case f of StringFrame m \<Rightarrow> (Inr m, c') | _ \<Rightarrow> (Inl codecError, c')))"

definition ReceiveGetNamespaceRequest :: "conn \<Rightarrow> (error + GetNamespaceRequest) \<times> conn" where
  "ReceiveGetNamespaceRequest c =
     (case receive c of
        (Inl err, c') \<Rightarrow> (Inl err, c')
      | (Inr f, c') \<Rightarrow>
          (case f of GetNamespaceRequestFrame r \<Rightarrow> (Inr r, c') | _ \<Rightarrow> (Inl codecError, c')))"

definition ReceivePutNamespaceRequest :: "conn \<Rightarrow> (error + PutNamespaceRequest) \<times> conn" where
  "ReceivePutNamespaceRequest c =
     (case receive c of
        (Inl err, c') \<Rightarrow> (Inl err, c')
      | (Inr f, c') \<Rightarrow>
          (case f of PutNamespaceRequestFrame r \<Rightarrow> (Inr r, c') | _ \<Rightarrow> (Inl codecError, c')))"

definition ReceiveGetCheckpointRequest :: "conn \<Rightarrow> (error + GetCheckpointRequest) \<times> conn" where
  "ReceiveGetCheckpointRequest c =
     (case receive c of
        (Inl err, c') \<Rightarrow> (Inl err, c')
      | (Inr f, c') \<Rightarrow>
          (case f of GetCheckpointRequestFrame r \<Rightarrow> (Inr r, c') | _ \<Rightarrow> (Inl codecError, c')))"

definition Send :: "conn \<Rightarrow> frame \<Rightarrow> error option \<times> conn" where
  "Send c f =
     (if closed c then (Some (Err ''use of closed network connection''), c)
      else if broken c then (Some (Err ''broken pipe''), c)
      else (None, c\<lparr>outbox := outbox c @ [f]\<rparr>))"

section \<open>Checkpoint service: construction and requests\<close>

text \<open>
  Modelled from the spec: the constant \<open>api.MethodGetCheckpoint\<close> is missing; the spec's
  table of methods names the method \<open>GetCheckpoint\<close>.
\<close>

definition MethodGetCheckpoint :: string where
  "MethodGetCheckpoint = ''GetCheckpoint''"

text \<open>
  \<open>initProvider\<close> sets the fields \<open>provider\<close> and \<open>referenceMgr\<close> of the service; here
  it returns the two values. The type assertion on \<open>c.Config\<close> panics when the field
  does not hold the raw message.
\<close>

definition initProviderOf :: "env \<Rightarrow> ProviderKind \<Rightarrow> string \<Rightarrow> config \<Rightarrow> error + ProviderKind" where
  "initProviderOf e k name c =
     (case Config c of
        None \<Rightarrow> Inl (Panic ''interface conversion'')
      | Some raw \<Rightarrow>
          (case json_Unmarshal_provider e k raw of
             Some err \<Rightarrow> Inl err
           | None \<Rightarrow>
               (case NewProvider e k raw of
                  Some err \<Rightarrow> Inl (Wrap err (''failed to create '' @ name @ '' provider''))
                | None \<Rightarrow> Inr k)))"

definition initProvider :: "env \<Rightarrow> config \<Rightarrow> error + (ProviderKind \<times> bool)" where
  "initProvider e c =
     (if Type c = ''ccfs'' then
        (case initProviderOf e Ccfs ''ccfs'' c of
           Inl err \<Rightarrow> Inl err
         | Inr p \<Rightarrow> Inr (p, True))
      else if Type c = ''containerd'' then
        (case initProviderOf e Containerd ''containerd'' c of
           Inl err \<Rightarrow> Inl err
         | Inr p \<Rightarrow> Inr (p, False))
      else Inl (Err ''invalid provider type''))"

text \<open>
  \<open>checkpoint.New\<close>. The statement \<open>if json.Unmarshal(content, &c); err != nil\<close> runs
  the decoder, drops its result and tests \<open>err\<close>, which is still the error of
  \<open>ReadFile\<close>: \<open>nil\<close> at this point. A panic of \<open>initProvider\<close> is not an error
  it returns: \<open>New\<close> does not wrap it, it panics too.
\<close>

definition checkpoint_New :: "env \<Rightarrow> string \<Rightarrow> error + service" where
  "checkpoint_New e rt =
     (case ioutil_ReadFile e (pathJoin [rt, ''checkpoint_service.json'']) of
        Inl err \<Rightarrow> Inl (Wrap err ''failed to read config file'')
      | Inr content \<Rightarrow>
          let err = (None :: error option);
              c = snd (json_Unmarshal_config e content \<lparr>Type = [], Config = Some []\<rparr>)
          in (case err of
                Some er \<Rightarrow> Inl (Wrap er ''failed to unmarshal config file'')
              | None \<Rightarrow>
                  (case initProvider e c of
                     Inl er \<Rightarrow>
                       (case er of
                          Panic m \<Rightarrow> Inl (Panic m)
                        | _ \<Rightarrow> Inl (Wrap er ''failed to create provider''))
                   | Inr (p, rm) \<Rightarrow>
                       Inr \<lparr>root = pathJoin [rt, ''checkpoint''], provider = p,
                            referenceMgr = rm, router = [], targets = [], calls = []\<rparr>)))"

definition service_Init :: "env \<Rightarrow> service \<Rightarrow> error option \<times> service" where
  "service_Init e s =
     (case os_MkdirAll e (calls s) (root s) of
        Some err \<Rightarrow> (Some err, s\<lparr>calls := calls s @ [MkdirAll (root s)]\<rparr>)
      | None \<Rightarrow>
          (None, s\<lparr>calls := calls s @ [MkdirAll (root s)],
                     router := router s @ [MethodGetCheckpoint]\<rparr>))"

definition handleGetCheckpoint :: "env \<Rightarrow> service \<Rightarrow> conn \<Rightarrow> error option \<times> service \<times> conn" where
  "handleGetCheckpoint e s c =
     (case ReceiveGetCheckpointRequest c of
        (Inl err, c1) \<Rightarrow> (Some err, s, c1)
      | (Inr r, c1) \<Rightarrow>
          (case service_Get e s (Ref r) of
             (res, s1) \<Rightarrow>
               let resp = \<lparr>Path = (case res of Inl err \<Rightarrow> [] | Inr p \<Rightarrow> p)\<rparr>;
                   s2 = (if referenceMgr s1 then s1\<lparr>calls := calls s1 @ [Add (Ref r)]\<rparr>
                         else s1)
               in (case Send c1 (GetCheckpointResponseFrame resp) of
                     (Some err, c2) \<Rightarrow> (Some err, s2, c2)
                   | (None, c2) \<Rightarrow> (None, s2, c2))))"

text \<open>
  Modelled from the spec: \<open>services.Router\<close> is missing. \<open>Handle\<close> reads the method and
  runs the handler registered for it; the only handler the service registers is
  \<open>handleGetCheckpoint\<close>, so the router is the list of the registered methods.
\<close>

definition Router_Handle :: "env \<Rightarrow> service \<Rightarrow> conn \<Rightarrow> error option \<times> service \<times> conn" where
  "Router_Handle e s c =
     (case ReceiveString c of
        (Inl err, c1) \<Rightarrow> (Some err, s, c1)
      | (Inr m, c1) \<Rightarrow>
          (if m \<in> set (router s) \<and> m = MethodGetCheckpoint then handleGetCheckpoint e s c1
           else (Some (Err ''no handler for method''), s, c1)))"

definition service_Handle :: "env \<Rightarrow> service \<Rightarrow> conn \<Rightarrow> service \<times> conn" where
  "service_Handle e s c =
     (case Router_Handle e s c of
        (Some err, s', c') \<Rightarrow> (s', Close c')
      | (None, s', c') \<Rightarrow> (s', c'))"

section \<open>Namespace service\<close>

text \<open>
  The interface \<open>ns.Manager\<close>. A manager is a state of type \<open>'m\<close> and the methods
  are functions on it: \<open>Get\<close> returns \<open>(id, fd, info)\<close> or an error.
\<close>

record 'm Manager =
  Manager_Get :: "'m \<Rightarrow> Iface \<Rightarrow> (error + int \<times> int \<times> Iface) \<times> 'm"
  Manager_Put :: "'m \<Rightarrow> int \<Rightarrow> error option \<times> 'm"
  Manager_CleanUp :: "'m \<Rightarrow> error option \<times> 'm"

text \<open>
  The \<open>namespaceService\<close> struct. \<open>managers\<close> is the Go map as the list of its entries
  (keys distinct), in the order \<open>range\<close> visits them.
\<close>

record 'm namespaceService =
  ns_config :: serviceConfig
  managers :: "(NamespaceType \<times> 'm) list"
  ns_root :: string

definition MethodGetNamespace :: string where
  "MethodGetNamespace = ''Get''"

definition MethodPutNamespace :: string where
  "MethodPutNamespace = ''Put''"

definition defaultConfig :: serviceConfig where
  "defaultConfig =
     \<lparr>Capacity = [IPC \<mapsto> 5, UTS \<mapsto> 5, MNT \<mapsto> 5], ExtraArgs = Map.empty\<rparr>"

fun mergeConfigLoop :: "serviceConfig \<Rightarrow> serviceConfig \<Rightarrow> NamespaceType list \<Rightarrow> error + serviceConfig" where
  "mergeConfigLoop to_c from_c [] = Inr to_c"
| "mergeConfigLoop to_c from_c (t # ts) =
     (case (case Capacity from_c t of
              Some v \<Rightarrow>
                if v < 0 then Inl (Err ''negative namespace capacity'')
                else Inr (to_c\<lparr>Capacity := (Capacity to_c)(t \<mapsto> v)\<rparr>)
            | None \<Rightarrow> Inr to_c) of
        Inl err \<Rightarrow> Inl err
      | Inr to1 \<Rightarrow>
          mergeConfigLoop
            (case ExtraArgs from_c t of
               Some v \<Rightarrow> to1\<lparr>ExtraArgs := (ExtraArgs to1)(t \<mapsto> v)\<rparr>
             | None \<Rightarrow> to1)
            from_c ts)"

definition mergeConfig :: "serviceConfig \<Rightarrow> serviceConfig \<Rightarrow> error + serviceConfig" where
  "mergeConfig to_c from_c = mergeConfigLoop to_c from_c [IPC, MNT, UTS]"

definition namespace_New :: "env \<Rightarrow> string \<Rightarrow> error + 'm namespaceService" where
  "namespace_New e rt =
     (let configPath = pathJoin [rt, ''namespace_service.json''];
          config = defaultConfig
      in (case os_Stat e configPath of
            None \<Rightarrow>
              (case ioutil_ReadFile e configPath of
                 Inl err \<Rightarrow> Inl err
               | Inr content \<Rightarrow>
                   (case json_Unmarshal_serviceConfig e content of
                      Inl err \<Rightarrow> Inl err
                    | Inr c \<Rightarrow>
                        (case mergeConfig config c of
                           Inl err \<Rightarrow> Inl err
                         | Inr config' \<Rightarrow>
                             Inr \<lparr>ns_config = config', managers = [], ns_root = rt\<rparr>)))
          | Some err \<Rightarrow>
              if \<not> IsNotExist err then Inl err
              else Inr \<lparr>ns_config = config, managers = [], ns_root = rt\<rparr>))"

text \<open>
  The response \<open>handleGetNamespace\<close> builds, and the service after the call to the
  manager. \<open>GetNamespaceResponse{}\<close> is the zero value.
\<close>

definition getNamespaceResponse ::
  "'m Manager \<Rightarrow> env \<Rightarrow> 'm namespaceService \<Rightarrow> GetNamespaceRequest \<Rightarrow>
   GetNamespaceResponse \<times> 'm namespaceService" where
  "getNamespaceResponse ops e svr r =
     (let rsp = \<lparr>NSId = 0, Pid = 0, Fd = 0, Info = INil\<rparr>
      in (case map_of (managers svr) (T r) of
            None \<Rightarrow> (rsp\<lparr>Fd := - 1, Info := IString ''No such namespace''\<rparr>, svr)
          | Some mgr \<Rightarrow>
              (case Manager_Get ops mgr (Arg r) of
                 (Inl err, mgr') \<Rightarrow>
                   (rsp\<lparr>Fd := - 1, Info := IString (Error err)\<rparr>,
                    svr\<lparr>managers := AList.update (T r) mgr' (managers svr)\<rparr>)
               | (Inr (nsid, fd, info), mgr') \<Rightarrow>
                   (rsp\<lparr>Fd := fd, NSId := nsid, Info := info, Pid := os_Getpid e\<rparr>,
                    svr\<lparr>managers := AList.update (T r) mgr' (managers svr)\<rparr>))))"

definition handleGetNamespace ::
  "'m Manager \<Rightarrow> env \<Rightarrow> 'm namespaceService \<Rightarrow> conn \<Rightarrow> GetNamespaceRequest \<Rightarrow>
   error option \<times> 'm namespaceService \<times> conn" where
  "handleGetNamespace ops e svr c r =
     (case getNamespaceResponse ops e svr r of
        (rsp, svr') \<Rightarrow>
          (case Send c (GetNamespaceResponseFrame rsp) of
             (Some err, c') \<Rightarrow> (Some err, svr', c')
           | (None, c') \<Rightarrow> (None, svr', c')))"

definition putNamespaceResponse ::
  "'m Manager \<Rightarrow> 'm namespaceService \<Rightarrow> PutNamespaceRequest \<Rightarrow>
   PutNamespaceResponse \<times> 'm namespaceService" where
  "putNamespaceResponse ops svr r =
     (let rsp = \<lparr>Error_field = []\<rparr>
      in (case map_of (managers svr) (PutT r) of
            None \<Rightarrow> (rsp\<lparr>Error_field := ''No such namespace''\<rparr>, svr)
          | Some mgr \<Rightarrow>
              (case Manager_Put ops mgr (ID r) of
                 (Some err, mgr') \<Rightarrow>
                   (rsp\<lparr>Error_field := Error err\<rparr>,
                    svr\<lparr>managers := AList.update (PutT r) mgr' (managers svr)\<rparr>)
               | (None, mgr') \<Rightarrow>
                   (rsp, svr\<lparr>managers := AList.update (PutT r) mgr' (managers svr)\<rparr>))))"

definition handlePutNamespace ::
  "'m Manager \<Rightarrow> 'm namespaceService \<Rightarrow> conn \<Rightarrow> PutNamespaceRequest \<Rightarrow>
   error option \<times> 'm namespaceService \<times> conn" where
  "handlePutNamespace ops svr c r =
     (case putNamespaceResponse ops svr r of
        (rsp, svr') \<Rightarrow>
          (case Send c (PutNamespaceResponseFrame rsp) of
             (Some err, c') \<Rightarrow> (Some err, svr', c')
           | (None, c') \<Rightarrow> (None, svr', c')))"

definition handleRequest ::
  "'m Manager \<Rightarrow> env \<Rightarrow> 'm namespaceService \<Rightarrow> string \<Rightarrow> conn \<Rightarrow>
   error option \<times> 'm namespaceService \<times> conn" where
  "handleRequest ops e svr method c =
     (if method = MethodGetNamespace then
        (case ReceiveGetNamespaceRequest c of
           (Inl err, c1) \<Rightarrow> (Some err, svr, c1)
         | (Inr r, c1) \<Rightarrow> handleGetNamespace ops e svr c1 r)
      else if method = MethodPutNamespace then
        (case ReceivePutNamespaceRequest c of
           (Inl err, c1) \<Rightarrow> (Some err, svr, c1)
         | (Inr r, c1) \<Rightarrow> handlePutNamespace ops svr c1 r)
      else (Some (Err ''Unknown method type''), svr, c))"

definition namespace_Handle ::
  "'m Manager \<Rightarrow> env \<Rightarrow> 'm namespaceService \<Rightarrow> conn \<Rightarrow> 'm namespaceService \<times> conn" where
  "namespace_Handle ops e svr c =
     (case ReceiveString c of
        (Inl err, c1) \<Rightarrow> (svr, Close c1)
      | (Inr methodType, c1) \<Rightarrow>
          (case handleRequest ops e svr methodType c1 of
             (Some err, svr', c2) \<Rightarrow> (svr', Close c2)
           | (None, svr', c2) \<Rightarrow> (svr', c2)))"

fun cleanUpAll :: "'m Manager \<Rightarrow> (NamespaceType \<times> 'm) list \<Rightarrow> (NamespaceType \<times> 'm) list" where
  "cleanUpAll ops [] = []"
| "cleanUpAll ops ((t, mgr) # ms) = (t, snd (Manager_CleanUp ops mgr)) # cleanUpAll ops ms"

definition namespace_Stop :: "'m Manager \<Rightarrow> 'm namespaceService \<Rightarrow> error option \<times> 'm namespaceService" where
  "namespace_Stop ops svr = (None, svr\<lparr>managers := cleanUpAll ops (managers svr)\<rparr>)"

section \<open>Connection server\<close>

text \<open>
  A \<open>services.Service\<close> registered with the server: one of the two services.
\<close>

datatype 'm Service = NamespaceSvc "'m namespaceService" | CheckpointSvc service

text \<open>
  The \<open>Server\<close> struct: \<open>services\<close> is the Go map as the list of its entries (keys
  distinct), in the order \<open>range\<close> visits them; \<open>httpServer\<close> is \<open>None\<close> when the
  field is nil and otherwise says whether the HTTP server is running. The connections are
  the arguments of \<open>serve\<close>; the wait group is not modelled: \<open>Shutdown\<close> is run
  after the handlers have returned.
\<close>

record 'm Server =
  services :: "(ServiceType \<times> 'm Service) list"
  httpServer :: "bool option"

definition Service_Handle ::
  "'m Manager \<Rightarrow> env \<Rightarrow> 'm Service \<Rightarrow> conn \<Rightarrow> 'm Service \<times> conn" where
  "Service_Handle ops e svr c =
     (case svr of
        NamespaceSvc n \<Rightarrow> (case namespace_Handle ops e n c of (n', c') \<Rightarrow> (NamespaceSvc n', c'))
      | CheckpointSvc s \<Rightarrow> (case service_Handle e s c of (s', c') \<Rightarrow> (CheckpointSvc s', c')))"

definition Service_Stop ::
  "'m Manager \<Rightarrow> env \<Rightarrow> 'm Service \<Rightarrow> error option \<times> 'm Service" where
  "Service_Stop ops e svr =
     (case svr of
        NamespaceSvc n \<Rightarrow> (case namespace_Stop ops n of (err, n') \<Rightarrow> (err, NamespaceSvc n'))
      | CheckpointSvc s \<Rightarrow> (case service_Stop e s of (err, s') \<Rightarrow> (err, CheckpointSvc s')))"

text \<open>The body of the loop of \<open>serve\<close> after a service type has been received.\<close>

definition dispatch ::
  "'m Manager \<Rightarrow> env \<Rightarrow> 'm Server \<Rightarrow> ServiceType \<Rightarrow> conn \<Rightarrow> 'm Server \<times> conn" where
  "dispatch ops e s svrType c =
     (case map_of (services s) svrType of
        None \<Rightarrow> (s, Close c)
      | Some svr \<Rightarrow>
          (case Service_Handle ops e svr c of
             (svr', c') \<Rightarrow> (s\<lparr>services := AList.update svrType svr' (services s)\<rparr>, c')))"

text \<open>
  No handler puts a message back on the connection, and a successful receive takes one
  off: the loop of \<open>serve\<close> ends.
\<close>

lemma receive_inbox_less:
  "receive c = (Inr f, c') \<Longrightarrow> length (inbox c') < length (inbox c)"
  by (auto simp: receive_def split: if_splits list.splits)

lemma receive_inbox_le:
  "receive c = (r, c') \<Longrightarrow> length (inbox c') \<le> length (inbox c)"
  by (auto simp: receive_def split: if_splits list.splits)

lemma ReceiveServiceType_inbox_less:
  "ReceiveServiceType c = (Inr t, c') \<Longrightarrow> length (inbox c') < length (inbox c)"
  by (auto simp: ReceiveServiceType_def split: prod.splits sum.splits frame.splits dest: receive_inbox_less)

lemma ReceiveString_inbox_le:
  "ReceiveString c = (r, c') \<Longrightarrow> length (inbox c') \<le> length (inbox c)"
  by (auto simp: ReceiveString_def split: prod.splits sum.splits frame.splits dest: receive_inbox_le)

lemma ReceiveGetNamespaceRequest_inbox_le:
  "ReceiveGetNamespaceRequest c = (r, c') \<Longrightarrow> length (inbox c') \<le> length (inbox c)"
  by (auto simp: ReceiveGetNamespaceRequest_def split: prod.splits sum.splits frame.splits dest: receive_inbox_le)

lemma ReceivePutNamespaceRequest_inbox_le:
  "ReceivePutNamespaceRequest c = (r, c') \<Longrightarrow> length (inbox c') \<le> length (inbox c)"
  by (auto simp: ReceivePutNamespaceRequest_def split: prod.splits sum.splits frame.splits dest: receive_inbox_le)

lemma ReceiveGetCheckpointRequest_inbox_le:
  "ReceiveGetCheckpointRequest c = (r, c') \<Longrightarrow> length (inbox c') \<le> length (inbox c)"
  by (auto simp: ReceiveGetCheckpointRequest_def split: prod.splits sum.splits frame.splits dest: receive_inbox_le)

lemma Send_inbox: "Send c f = (r, c') \<Longrightarrow> inbox c' = inbox c"
  by (auto simp: Send_def split: if_splits)

lemma Close_inbox [simp]: "inbox (Close c) = inbox c"
  by (simp add: Close_def)

lemma handleGetCheckpoint_inbox_le:
  "handleGetCheckpoint e s c = (r, s', c') \<Longrightarrow> length (inbox c') \<le> length (inbox c)"
  by (auto simp: handleGetCheckpoint_def Let_def split: prod.splits sum.splits option.splits
           dest!: ReceiveGetCheckpointRequest_inbox_le Send_inbox)

lemma Router_Handle_inbox_le:
  "Router_Handle e s c = (r, s', c') \<Longrightarrow> length (inbox c') \<le> length (inbox c)"
  by (auto simp: Router_Handle_def split: prod.splits sum.splits if_splits
           dest!: ReceiveString_inbox_le handleGetCheckpoint_inbox_le)

lemma service_Handle_inbox_le:
  "service_Handle e s c = (s', c') \<Longrightarrow> length (inbox c') \<le> length (inbox c)"
  by (auto simp: service_Handle_def split: prod.splits option.splits dest!: Router_Handle_inbox_le)

lemma handleRequest_inbox_le:
  "handleRequest ops e svr m c = (r, svr', c') \<Longrightarrow> length (inbox c') \<le> length (inbox c)"
  by (auto simp: handleRequest_def handleGetNamespace_def handlePutNamespace_def
           split: prod.splits sum.splits option.splits if_splits
           dest!: ReceiveGetNamespaceRequest_inbox_le ReceivePutNamespaceRequest_inbox_le Send_inbox)

lemma namespace_Handle_inbox_le:
  "namespace_Handle ops e svr c = (svr', c') \<Longrightarrow> length (inbox c') \<le> length (inbox c)"
  by (auto simp: namespace_Handle_def split: prod.splits sum.splits option.splits
           dest!: ReceiveString_inbox_le handleRequest_inbox_le)

lemma dispatch_inbox_le:
  "dispatch ops e s t c = (s', c') \<Longrightarrow> length (inbox c') \<le> length (inbox c)"
  by (auto simp: dispatch_def Service_Handle_def split: option.splits prod.splits Service.splits
           dest!: namespace_Handle_inbox_le service_Handle_inbox_le)

text \<open>
  \<open>Server.serve\<close>. \<open>ctxDone n\<close> says whether the context is found cancelled at the
  \<open>select\<close> that ends iteration \<open>n\<close> of the loop.
\<close>

function serve ::
  "(nat \<Rightarrow> bool) \<Rightarrow> 'm Manager \<Rightarrow> env \<Rightarrow> 'm Server \<Rightarrow> conn \<Rightarrow> nat \<Rightarrow> 'm Server \<times> conn" where
  "serve ctxDone ops e s c n =
     (case ReceiveServiceType c of
        (Inl err, c1) \<Rightarrow> (s, Close c1)
      | (Inr svrType, c1) \<Rightarrow>
          (case dispatch ops e s svrType c1 of
             (s2, c2) \<Rightarrow>
               if ctxDone n then (s2, c2)
               else serve ctxDone ops e s2 c2 (Suc n)))"
  by pat_completeness auto
termination
proof (relation "measure (\<lambda>(ctxDone, ops, e, s, c, n). length (inbox c))", goal_cases)
  case 1
  show ?case by simp
next
  case 2
  then show ?case
    using ReceiveServiceType_inbox_less dispatch_inbox_le
    by (metis (no_types, lifting) in_measure order_le_less_trans case_prod_conv)
qed

declare serve.simps [simp del]

text \<open>
  The accept loop of \<open>Server.Start\<close>. The listener is the list of the outcomes of
  \<open>Accept\<close>, in order; when the list is used up \<open>Accept\<close> blocks and the loop is
  parked. Every connection is served by its own goroutine; here it is served to its end
  before the next one is accepted. The result is the errors sent on \<open>errorC\<close>, the
  server and the connections as their handlers left them. \<open>acceptDone k\<close> says whether
  the context is found cancelled after connection \<open>k\<close> has been accepted, and
  \<open>serveDone k\<close> is the \<open>ctxDone\<close> of its handler. The goroutine that forwards the
  error of the HTTP server to \<open>errorC\<close> is left out.
\<close>

fun Start ::
  "(nat \<Rightarrow> bool) \<Rightarrow> (nat \<Rightarrow> nat \<Rightarrow> bool) \<Rightarrow> 'm Manager \<Rightarrow> env \<Rightarrow> 'm Server \<Rightarrow>
   (error + conn) list \<Rightarrow> nat \<Rightarrow> error list \<times> 'm Server \<times> conn list" where
  "Start acceptDone serveDone ops e s [] k = ([], s, [])"
| "Start acceptDone serveDone ops e s (Inl err # rest) k = ([err], s, [])"
| "Start acceptDone serveDone ops e s (Inr c # rest) k =
     (case serve (serveDone k) ops e s c 0 of
        (s1, c1) \<Rightarrow>
          if acceptDone k then ([], s1, [c1])
          else (case Start acceptDone serveDone ops e s1 rest (Suc k) of
                  (errs, s2, cs) \<Rightarrow> (errs, s2, c1 # cs)))"

text \<open>
  The loop of \<open>Server.Shutdown\<close> over the services: every service is stopped; an error
  of \<open>Stop\<close> is logged (the first component of the result) and the loop goes on.
\<close>

fun stopServices ::
  "'m Manager \<Rightarrow> env \<Rightarrow> (ServiceType \<times> 'm Service) list \<Rightarrow>
   (ServiceType \<times> error) list \<times> (ServiceType \<times> 'm Service) list" where
  "stopServices ops e [] = ([], [])"
| "stopServices ops e ((t, ss) # rest) =
     (case Service_Stop ops e ss of
        (err, ss') \<Rightarrow>
          (case stopServices ops e rest of
             (logged, rest') \<Rightarrow>
               ((case err of Some er \<Rightarrow> [(t, er)] | None \<Rightarrow> []) @ logged,
                (t, ss') # rest')))"

definition Shutdown ::
  "'m Manager \<Rightarrow> env \<Rightarrow> 'm Server \<Rightarrow> (ServiceType \<times> error) list \<times> 'm Server" where
  "Shutdown ops e s =
     (case stopServices ops e (services s) of
        (logged, ss) \<Rightarrow>
          (logged,
           s\<lparr>services := ss,
              httpServer := (case httpServer s of None \<Rightarrow> None | Some running \<Rightarrow> Some False)\<rparr>))"

section \<open>Runs and concrete instances\<close>

text \<open>A run of \<open>Get\<close> calls on the service, one after another, with their results.\<close>

fun service_Gets :: "env \<Rightarrow> service \<Rightarrow> string list \<Rightarrow> (error + string) list \<times> service" where
  "service_Gets e s [] = ([], s)"
| "service_Gets e s (r # rs) =
     (case service_Get e s r of
        (res, s1) \<Rightarrow>
          (case service_Gets e s1 rs of
             (ress, s2) \<Rightarrow> (res # ress, s2)))"

text \<open>The number of \<open>Prepare(ref, _)\<close> calls among the calls made.\<close>

fun isPrepareOf :: "string \<Rightarrow> event \<Rightarrow> bool" where
  "isPrepareOf ref (Prepare r t) = (r = ref)"
| "isPrepareOf ref ev = False"

definition prepareCount :: "string \<Rightarrow> event list \<Rightarrow> nat" where
  "prepareCount ref cs = length (filter (isPrepareOf ref) cs)"

text \<open>
  A host with no config file on which every call succeeds; the daemon's pid is 4242.
\<close>

definition quietEnv :: env where
  "quietEnv =
     \<lparr>os_Stat = (\<lambda>p. Some (NotExist p)),
      ioutil_ReadFile = (\<lambda>p. Inl (NotExist p)),
      os_MkdirAll = (\<lambda>cs p. None),
      os_Getpid = 4242,
      json_Unmarshal_config = (\<lambda>content c. (None, c)),
      json_Unmarshal_serviceConfig = (\<lambda>content. Inr \<lparr>Capacity = Map.empty, ExtraArgs = Map.empty\<rparr>),
      json_Unmarshal_provider = (\<lambda>k raw. None),
      NewProvider = (\<lambda>k raw. None),
      provider_Prepare = (\<lambda>cs r t. None),
      provider_Remove = (\<lambda>cs t. None)\<rparr>"


text \<open>A checkpoint service after \<open>Init\<close>, with nothing prepared yet.\<close>

definition cpService :: service where
  "cpService =
     \<lparr>root = ''/var/lib/cermanager/checkpoint'', provider = Containerd, referenceMgr = False,
      router = [MethodGetCheckpoint], targets = [], calls = []\<rparr>"

text \<open>The same service with the ccfs provider, which is also the reference manager.\<close>

definition ccfsService :: service where
  "ccfsService = cpService\<lparr>provider := Ccfs, referenceMgr := True\<rparr>"

text \<open>
  A live connection on which a client asks the checkpoint service for the empty ref, and
  the same connection once the router has read the method.
\<close>

definition emptyRefConn :: conn where
  "emptyRefConn =
     \<lparr>inbox = [StringFrame ''GetCheckpoint'', GetCheckpointRequestFrame \<lparr>Ref = []\<rparr>],
      outbox = [], closed = False, broken = False\<rparr>"

definition emptyRefRequest :: conn where
  "emptyRefRequest =
     \<lparr>inbox = [GetCheckpointRequestFrame \<lparr>Ref = []\<rparr>],
      outbox = [], closed = False, broken = False\<rparr>"

text \<open>
  The bytes of a config file, a JSON object with the members \<open>type\<close> (the string
  ccfs), \<open>config\<close> (an object the provider accepts, here the empty one) and \<open>type\<close>
  once more (the number 1); \<open>dq\<close> is the double quote.
\<close>

definition dq :: string where
  "dq = [CHR 0x22]"

definition dupKeyContent :: string where
  "dupKeyContent =
     ''{'' @ dq @ ''type'' @ dq @ '':'' @ dq @ ''ccfs'' @ dq @ '','' @
     dq @ ''config'' @ dq @ '':{},'' @ dq @ ''type'' @ dq @ '':1}''"

text \<open>
  A host with that file as \<open>/var/lib/cermanager/checkpoint_service.json\<close> and a file
  that is not JSON as \<open>/srv/cermanager/checkpoint_service.json\<close>. On the first the
  decoder stores the first \<open>type\<close>, then reports the second as a type error; on the
  second it reports a syntax error and stores nothing.
\<close>

definition configFileEnv :: env where
  "configFileEnv =
     quietEnv\<lparr>
       ioutil_ReadFile :=
         (\<lambda>p. if p = ''/var/lib/cermanager/checkpoint_service.json'' then Inr dupKeyContent
              else if p = ''/srv/cermanager/checkpoint_service.json'' then Inr ''not json''
              else Inl (NotExist p)),
       json_Unmarshal_config :=
         (\<lambda>content c.
            if content = dupKeyContent then
              (Some (Err ''json: cannot unmarshal number into Go struct field config.type of type string''),
               c\<lparr>Type := ''ccfs'', Config := Some ''{}''\<rparr>)
            else (Some (Err ''invalid character''), c))\<rparr>"

text \<open>
  Modelled from the spec: the generic pool (package \<open>namespace/generic\<close>, behind
  \<open>ns.Manager\<close>) is missing. A pool holds every resource \<open>(id, handle, info)\<close> it
  created and a stack of the idle ones; \<open>Get\<close> pops an idle resource or fails with
  \<open>Exhausted\<close>, \<open>Put\<close> pushes the resource back and fails with \<open>UnknownId\<close> or
  \<open>NotInUse\<close>, \<open>CleanUp\<close> destroys every resource. It is used as an instance of
  the manager interface in the concrete runs below.
\<close>

record Pool =
  pool_all :: "(int \<times> int \<times> Iface) list"
  pool_available :: "(int \<times> int \<times> Iface) list"

definition Pool_Get :: "Pool \<Rightarrow> Iface \<Rightarrow> (error + int \<times> int \<times> Iface) \<times> Pool" where
  "Pool_Get p arg =
     (case pool_available p of
        [] \<Rightarrow> (Inl (Err ''Exhausted''), p)
      | x # xs \<Rightarrow> (Inr x, p\<lparr>pool_available := xs\<rparr>))"

definition Pool_Put :: "Pool \<Rightarrow> int \<Rightarrow> error option \<times> Pool" where
  "Pool_Put p i =
     (case map_of (pool_all p) i of
        None \<Rightarrow> (Some (Err ''UnknownId''), p)
      | Some x \<Rightarrow>
          if (i, x) \<in> set (pool_available p) then (Some (Err ''NotInUse''), p)
          else (None, p\<lparr>pool_available := (i, x) # pool_available p\<rparr>))"

definition Pool_CleanUp :: "Pool \<Rightarrow> error option \<times> Pool" where
  "Pool_CleanUp p = (None, p\<lparr>pool_all := [], pool_available := []\<rparr>)"

definition poolManager :: "Pool Manager" where
  "poolManager =
     \<lparr>Manager_Get = Pool_Get, Manager_Put = Pool_Put, Manager_CleanUp = Pool_CleanUp\<rparr>"

text \<open>
  A namespace service after \<open>Init\<close> with capacity 2 for UTS and 0 for IPC and MNT, and
  a live connection that has the messages \<open>fs\<close> to deliver.
\<close>

definition utsPool :: Pool where
  "utsPool =
     \<lparr>pool_all = [(0, 10, INil), (1, 11, INil)],
      pool_available = [(0, 10, INil), (1, 11, INil)]\<rparr>"

definition emptyPool :: Pool where
  "emptyPool = \<lparr>pool_all = [], pool_available = []\<rparr>"

definition nsService :: "Pool namespaceService" where
  "nsService =
     \<lparr>ns_config = defaultConfig,
      managers = [(UTS, utsPool), (IPC, emptyPool), (MNT, emptyPool)],
      ns_root = ''/var/lib/cermanager''\<rparr>"

definition liveConn :: "frame list \<Rightarrow> conn" where
  "liveConn fs = \<lparr>inbox = fs, outbox = [], closed = False, broken = False\<rparr>"

text \<open>Whether the \<open>Get\<close> of a request succeeds: the type has a manager and its \<open>Get\<close> returns no error.\<close>

definition getSucceeds :: "'m Manager \<Rightarrow> 'm namespaceService \<Rightarrow> GetNamespaceRequest \<Rightarrow> bool" where
  "getSucceeds ops svr r =
     (case map_of (managers svr) (T r) of
        None \<Rightarrow> False
      | Some mgr \<Rightarrow> \<not> isl (fst (Manager_Get ops mgr (Arg r))))"


text \<open>
  The outcome of the \<open>i\<close>-th \<open>Remove\<close> of \<open>Stop\<close>: the provider has seen the calls
  before \<open>Stop\<close> and the removals of the targets before this one.
\<close>

definition removeOutcome :: "env \<Rightarrow> service \<Rightarrow> nat \<Rightarrow> error option" where
  "removeOutcome e s i =
     provider_Remove e (calls s @ map Remove (take i (targets s))) (targets s ! i)"

definition removeMessage :: "env \<Rightarrow> service \<Rightarrow> nat \<Rightarrow> string list" where
  "removeMessage e s i =
     (case removeOutcome e s i of
        None \<Rightarrow> []
      | Some err \<Rightarrow> [''remove '' @ targets s ! i @ '' with error '' @ Error err])"

text \<open>
  A host whose provider cannot remove the target of \<open>img-A\<close>, the checkpoint service
  after \<open>Get\<close> of \<open>img-A\<close> and of \<open>img-B\<close>, and a server with the two services.
\<close>

definition busyEnv :: env where
  "busyEnv =
     quietEnv\<lparr>provider_Remove :=
       (\<lambda>cs t. if t = ''/var/lib/cermanager/checkpoint/img-A'' then Some (Err ''device busy'')
               else None)\<rparr>"

definition twoTargets :: service where
  "twoTargets =
     cpService\<lparr>targets := [''/var/lib/cermanager/checkpoint/img-A'',
                            ''/var/lib/cermanager/checkpoint/img-B''],
               calls := [MkdirAll ''/var/lib/cermanager/checkpoint/img-A'',
                         Prepare ''img-A'' ''/var/lib/cermanager/checkpoint/img-A'',
                         MkdirAll ''/var/lib/cermanager/checkpoint/img-B'',
                         Prepare ''img-B'' ''/var/lib/cermanager/checkpoint/img-B'']\<rparr>"

definition twoServices :: "Pool Server" where
  "twoServices =
     \<lparr>services = [(CheckpointService, CheckpointSvc twoTargets),
                  (NamespaceService, NamespaceSvc nsService)],
      httpServer = None\<rparr>"


text \<open>
  A connection that sends a service type the server does not know, a connection that
  asks the namespace service for a UTS namespace, and a context that is never cancelled.
\<close>

definition strayConn :: conn where
  "strayConn =
     liveConn [ServiceTypeFrame (OtherService 9), StringFrame MethodGetNamespace,
               GetNamespaceRequestFrame \<lparr>T = UTS, Arg = INil\<rparr>]"

definition utsConn :: conn where
  "utsConn =
     liveConn [ServiceTypeFrame NamespaceService, StringFrame MethodGetNamespace,
               GetNamespaceRequestFrame \<lparr>T = UTS, Arg = INil\<rparr>]"

definition notCancelled :: "nat \<Rightarrow> bool" where
  "notCancelled n = False"


text \<open>
  Whether the next request on a connection can be answered: the method is received and
  is \<open>Get\<close> or \<open>Put\<close>, and the body is received and decodes as the request of that
  method.
\<close>

definition requestDecodes :: "conn \<Rightarrow> bool" where
  "requestDecodes c =
     (case ReceiveString c of
        (Inl err, c1) \<Rightarrow> False
      | (Inr m, c1) \<Rightarrow>
          if m = MethodGetNamespace then \<not> isl (fst (ReceiveGetNamespaceRequest c1))
          else if m = MethodPutNamespace then \<not> isl (fst (ReceivePutNamespaceRequest c1))
          else False)"

text \<open>A connection whose peer is gone: it delivers \<open>fs\<close> and every write fails.\<close>

definition brokenConn :: "frame list \<Rightarrow> conn" where
  "brokenConn fs = \<lparr>inbox = fs, outbox = [], closed = False, broken = True\<rparr>"

section \<open>Lemmas on the checkpoint service\<close>

lemma prepareCount_append [simp]:
  "prepareCount ref (xs @ ys) = prepareCount ref xs + prepareCount ref ys"
  by (simp add: prepareCount_def)

lemma prepareCount_simps [simp]:
  "prepareCount ref [] = 0"
  "prepareCount ref (MkdirAll t # cs) = prepareCount ref cs"
  "prepareCount ref (Prepare r t # cs) = (if r = ref then Suc (prepareCount ref cs) else prepareCount ref cs)"
  "prepareCount ref (Remove t # cs) = prepareCount ref cs"
  "prepareCount ref (Add r # cs) = prepareCount ref cs"
  by (simp_all add: prepareCount_def)






lemma receive_open:
  "\<not> closed c \<Longrightarrow> inbox c = f # fs \<Longrightarrow> receive c = (Inr f, c\<lparr>inbox := fs\<rparr>)"
  by (simp add: receive_def)

lemma Send_open:
  "\<not> closed c \<Longrightarrow> \<not> broken c \<Longrightarrow> Send c f = (None, c\<lparr>outbox := outbox c @ [f]\<rparr>)"
  by (simp add: Send_def)

lemma service_Get_empty: "service_Get e s [] = (Inl (Err ''empty ref''), s)"
  by (simp add: service_Get_def)

lemma service_Get_referenceMgr:
  "service_Get e s ref = (res, s1) \<Longrightarrow> referenceMgr s1 = referenceMgr s"
  by (auto simp: service_Get_def Let_def split: if_splits option.splits)

lemma handleGetCheckpoint_empty:
  assumes "\<not> closed c" "\<not> broken c" "inbox c = GetCheckpointRequestFrame \<lparr>Ref = []\<rparr> # rest"
  shows "handleGetCheckpoint e s c =
           (None, if referenceMgr s then s\<lparr>calls := calls s @ [Add []]\<rparr> else s,
            c\<lparr>inbox := rest, outbox := outbox c @ [GetCheckpointResponseFrame \<lparr>Path = []\<rparr>]\<rparr>)"
  using assms
  by (simp add: handleGetCheckpoint_def ReceiveGetCheckpointRequest_def receive_open
        service_Get_empty Send_open)

lemma service_Handle_empty:
  assumes "\<not> closed c" "\<not> broken c"
    "inbox c = StringFrame MethodGetCheckpoint # GetCheckpointRequestFrame \<lparr>Ref = []\<rparr> # rest"
    "MethodGetCheckpoint \<in> set (router s)"
  shows "service_Handle e s c =
           (if referenceMgr s then s\<lparr>calls := calls s @ [Add []]\<rparr> else s,
            c\<lparr>inbox := rest, outbox := outbox c @ [GetCheckpointResponseFrame \<lparr>Path = []\<rparr>]\<rparr>)"
  using assms
  by (simp add: service_Handle_def Router_Handle_def ReceiveString_def receive_open
        handleGetCheckpoint_empty)

lemma initProvider_referenceMgr:
  "initProvider e c = Inr (p, rm) \<Longrightarrow> rm = (p = Ccfs) \<and> (p = Ccfs) = (Type c = ''ccfs'')"
  by (auto simp: initProvider_def initProviderOf_def split: if_splits sum.splits option.splits)

lemma checkpoint_New_referenceMgr:
  "checkpoint_New e rt = Inr s \<Longrightarrow> referenceMgr s = (provider s = Ccfs)"
  by (auto simp: checkpoint_New_def Let_def split: sum.splits option.splits error.splits
           dest: initProvider_referenceMgr)

lemma handleGetCheckpoint_service:
  assumes "ReceiveGetCheckpointRequest c = (Inr r, c1)"
    and "service_Get e s (Ref r) = (res, s1)"
  shows "fst (snd (handleGetCheckpoint e s c)) =
           (if referenceMgr s then s1\<lparr>calls := calls s1 @ [Add (Ref r)]\<rparr> else s1)"
  using assms service_Get_referenceMgr [OF assms(2)]
  by (auto simp: handleGetCheckpoint_def Let_def split: prod.splits option.splits)

section \<open>Lemmas on the namespace service\<close>

lemma getNamespaceResponse_unknown:
  "map_of (managers svr) (T r) = None \<Longrightarrow>
   getNamespaceResponse ops e svr r =
     (\<lparr>NSId = 0, Pid = 0, Fd = - 1, Info = IString ''No such namespace''\<rparr>, svr)"
  by (simp add: getNamespaceResponse_def)

lemma getNamespaceResponse_error:
  "map_of (managers svr) (T r) = Some mgr \<Longrightarrow> Manager_Get ops mgr (Arg r) = (Inl err, mgr') \<Longrightarrow>
   getNamespaceResponse ops e svr r =
     (\<lparr>NSId = 0, Pid = 0, Fd = - 1, Info = IString (Error err)\<rparr>,
      svr\<lparr>managers := AList.update (T r) mgr' (managers svr)\<rparr>)"
  by (simp add: getNamespaceResponse_def)

lemma getNamespaceResponse_ok:
  "map_of (managers svr) (T r) = Some mgr \<Longrightarrow>
   Manager_Get ops mgr (Arg r) = (Inr (nsid, fd, info), mgr') \<Longrightarrow>
   getNamespaceResponse ops e svr r =
     (\<lparr>NSId = nsid, Pid = os_Getpid e, Fd = fd, Info = info\<rparr>,
      svr\<lparr>managers := AList.update (T r) mgr' (managers svr)\<rparr>)"
  by (simp add: getNamespaceResponse_def)

lemma handleGetNamespace_service:
  "fst (snd (handleGetNamespace ops e svr c r)) = snd (getNamespaceResponse ops e svr r)"
  by (simp add: handleGetNamespace_def split: prod.splits option.splits)

lemma handleGetNamespace_open:
  "\<not> closed c \<Longrightarrow> \<not> broken c \<Longrightarrow>
   handleGetNamespace ops e svr c r =
     (None, snd (getNamespaceResponse ops e svr r),
      c\<lparr>outbox := outbox c @ [GetNamespaceResponseFrame (fst (getNamespaceResponse ops e svr r))]\<rparr>)"
  by (simp add: handleGetNamespace_def Send_open split: prod.splits)

lemma handlePutNamespace_open:
  "\<not> closed c \<Longrightarrow> \<not> broken c \<Longrightarrow>
   handlePutNamespace ops svr c r =
     (None, snd (putNamespaceResponse ops svr r),
      c\<lparr>outbox := outbox c @ [PutNamespaceResponseFrame (fst (putNamespaceResponse ops svr r))]\<rparr>)"
  by (simp add: handlePutNamespace_def Send_open split: prod.splits)

lemma namespace_Handle_Get:
  assumes "\<not> closed c" "\<not> broken c"
    and "inbox c = StringFrame MethodGetNamespace # GetNamespaceRequestFrame r # rest"
  shows "namespace_Handle ops e svr c =
     (snd (getNamespaceResponse ops e svr r),
      c\<lparr>inbox := rest,
        outbox := outbox c @ [GetNamespaceResponseFrame (fst (getNamespaceResponse ops e svr r))]\<rparr>)"
  using assms
  by (simp add: namespace_Handle_def ReceiveString_def receive_open handleRequest_def
        ReceiveGetNamespaceRequest_def handleGetNamespace_open)

lemma namespace_Handle_Put:
  assumes "\<not> closed c" "\<not> broken c"
    and "inbox c = StringFrame MethodPutNamespace # PutNamespaceRequestFrame r # rest"
  shows "namespace_Handle ops e svr c =
     (snd (putNamespaceResponse ops svr r),
      c\<lparr>inbox := rest,
        outbox := outbox c @ [PutNamespaceResponseFrame (fst (putNamespaceResponse ops svr r))]\<rparr>)"
  using assms
  by (simp add: namespace_Handle_def ReceiveString_def receive_open handleRequest_def
        ReceivePutNamespaceRequest_def handlePutNamespace_open MethodGetNamespace_def
        MethodPutNamespace_def)

lemma namespace_Handle_unknown_method:
  assumes "\<not> closed c"
    and "inbox c = StringFrame m # rest"
    and "m \<noteq> MethodGetNamespace" "m \<noteq> MethodPutNamespace"
  shows "namespace_Handle ops e svr c = (svr, c\<lparr>inbox := rest, closed := True\<rparr>)"
  using assms
  by (simp add: namespace_Handle_def ReceiveString_def receive_open handleRequest_def Close_def)

lemma putNamespaceResponse_unknown:
  "map_of (managers svr) (PutT r) = None \<Longrightarrow>
   putNamespaceResponse ops svr r = (\<lparr>Error_field = ''No such namespace''\<rparr>, svr)"
  by (simp add: putNamespaceResponse_def)

lemma putNamespaceResponse_error:
  "map_of (managers svr) (PutT r) = Some mgr \<Longrightarrow> Manager_Put ops mgr (ID r) = (Some err, mgr') \<Longrightarrow>
   fst (putNamespaceResponse ops svr r) = \<lparr>Error_field = Error err\<rparr>"
  by (simp add: putNamespaceResponse_def)


lemma getNamespaceResponse_failed:
  "\<not> getSucceeds ops svr r \<Longrightarrow>
   Pid (fst (getNamespaceResponse ops e svr r)) = 0 \<and>
   NSId (fst (getNamespaceResponse ops e svr r)) = 0 \<and>
   Fd (fst (getNamespaceResponse ops e svr r)) = - 1"
  by (auto simp: getSucceeds_def getNamespaceResponse_def Let_def
           split: option.splits prod.splits sum.splits)

lemma getNamespaceResponse_succeeded:
  "getSucceeds ops svr r \<Longrightarrow> Pid (fst (getNamespaceResponse ops e svr r)) = os_Getpid e"
  by (auto simp: getSucceeds_def getNamespaceResponse_def Let_def
           split: option.splits prod.splits sum.splits)

section \<open>Lemmas on shutdown and on the connection server\<close>

lemma removeTargets_eq:
  "removeTargets e ts cs failed =
     (failed @ concat (map (\<lambda>i. case provider_Remove e (cs @ map Remove (take i ts)) (ts ! i) of
                                   None \<Rightarrow> []
                                 | Some err \<Rightarrow> [''remove '' @ ts ! i @ '' with error '' @ Error err])
                           [0..<length ts]),
      cs @ map Remove ts)"
proof (induction ts arbitrary: cs failed)
  case Nil
  then show ?case by simp
next
  case (Cons t ts)
  show ?case
    by (cases "provider_Remove e cs t")
       (simp_all add: Cons.IH upt_conv_Cons map_Suc_upt [symmetric] o_def del: upt_Suc
          cong: option.case_cong)
qed

lemma service_Stop_eq:
  "service_Stop e s =
     (let failed = concat (map (removeMessage e s) [0..<length (targets s)])
      in (if failed = [] then None else Some (Err (stringsJoin failed '';'')),
          s\<lparr>calls := calls s @ map Remove (targets s)\<rparr>))"
  by (simp add: service_Stop_def removeTargets_eq removeMessage_def removeOutcome_def Let_def
        cong: map_cong)

lemma count_Remove:
  "count_list (map Remove ts) (Remove t) = count_list ts t"
  by (induction ts) simp_all

lemma count_list_distinct:
  "distinct ts \<Longrightarrow> count_list ts t = (if t \<in> set ts then 1 else 0)"
  by (induction ts) auto

lemma count_Remove_distinct:
  "distinct ts \<Longrightarrow> t \<in> set ts \<Longrightarrow> count_list (map Remove ts) (Remove t) = 1"
  by (simp add: count_Remove count_list_distinct)

lemma service_Get_distinct:
  "distinct (targets s) \<Longrightarrow> distinct (targets (snd (service_Get e s ref)))"
  by (auto simp: service_Get_def Let_def split: option.splits)

lemma service_Gets_distinct:
  "distinct (targets s) \<Longrightarrow> distinct (targets (snd (service_Gets e s rs)))"
proof (induction rs arbitrary: s)
  case Nil
  then show ?case by simp
next
  case (Cons r rs)
  obtain res s1 where g: "service_Get e s r = (res, s1)"
    by (cases "service_Get e s r")
  with service_Get_distinct [OF Cons.prems, of e r] have "distinct (targets s1)" by simp
  from Cons.IH [OF this] g show ?case
    by (cases "service_Gets e s1 rs") simp
qed

lemma stopServices_eq:
  "stopServices ops e ss =
     (concat (map (\<lambda>(t, svc). case fst (Service_Stop ops e svc) of
                                 None \<Rightarrow> [] | Some er \<Rightarrow> [(t, er)]) ss),
      map (\<lambda>(t, svc). (t, snd (Service_Stop ops e svc))) ss)"
  by (induction ss) (auto split: prod.splits)

lemma Service_Stop_checkpoint:
  "Service_Stop ops e (CheckpointSvc s) =
     (fst (service_Stop e s), CheckpointSvc (snd (service_Stop e s)))"
  by (simp add: Service_Stop_def split: prod.splits)

lemma Shutdown_services:
  "services (snd (Shutdown ops e S)) =
     map (\<lambda>(t, svc). (t, snd (Service_Stop ops e svc))) (services S)"
  by (simp add: Shutdown_def stopServices_eq)

lemma ReceiveServiceType_open:
  "\<not> closed c \<Longrightarrow> inbox c = ServiceTypeFrame t # rest \<Longrightarrow>
   ReceiveServiceType c = (Inr t, c\<lparr>inbox := rest\<rparr>)"
  by (simp add: ReceiveServiceType_def receive_open)

lemma ReceiveServiceType_closed:
  "closed c \<Longrightarrow> ReceiveServiceType c = (Inl (Err ''use of closed network connection''), c)"
  by (simp add: ReceiveServiceType_def receive_def)

lemma serve_closed:
  "closed c \<Longrightarrow> serve ctxDone ops e s c n = (s, c)"
  by (subst serve.simps) (simp add: ReceiveServiceType_closed Close_def)

lemma serve_unknown:
  assumes "\<not> closed c" and "inbox c = ServiceTypeFrame t # rest"
    and "map_of (services s) t = None"
  shows "serve ctxDone ops e s c n = (s, c\<lparr>inbox := rest, closed := True\<rparr>)"
proof -
  have "serve ctxDone ops e s c n =
          (if ctxDone n then (s, Close (c\<lparr>inbox := rest\<rparr>))
           else serve ctxDone ops e s (Close (c\<lparr>inbox := rest\<rparr>)) (Suc n))"
    using assms by (subst serve.simps) (simp add: ReceiveServiceType_open dispatch_def)
  then show ?thesis
    by (simp add: serve_closed Close_def)
qed

lemma serve_malformed:
  assumes "\<not> closed c" and "inbox c = f # rest" and "\<forall>t. f \<noteq> ServiceTypeFrame t"
  shows "serve ctxDone ops e s c n = (s, c\<lparr>inbox := rest, closed := True\<rparr>)"
  using assms
  by (subst serve.simps)
     (simp add: ReceiveServiceType_def receive_open Close_def split: frame.splits)




lemma checkpoint_New_panic:
  assumes "ioutil_ReadFile e (pathJoin [rt, ''checkpoint_service.json'']) = Inr content"
    and "json_Unmarshal_config e content \<lparr>Type = [], Config = Some []\<rparr> = (uerr, c)"
    and "Type c = ''ccfs'' \<or> Type c = ''containerd''" and "Config c = None"
  shows "checkpoint_New e rt = Inl (Panic ''interface conversion'')"
  using assms
  by (auto simp: checkpoint_New_def initProvider_def initProviderOf_def)


lemma receive_keeps:
  "closed (snd (receive c)) = closed c \<and> broken (snd (receive c)) = broken c \<and>
   outbox (snd (receive c)) = outbox c"
  by (simp add: receive_def split: list.splits)

lemma receive_closed: "closed c \<Longrightarrow> isl (fst (receive c))"
  by (simp add: receive_def)

lemma ReceiveString_keeps:
  "closed (snd (ReceiveString c)) = closed c \<and> broken (snd (ReceiveString c)) = broken c \<and>
   outbox (snd (ReceiveString c)) = outbox c"
  using receive_keeps [of c]
  by (cases "receive c") (simp add: ReceiveString_def split: sum.splits frame.splits)

lemma ReceiveString_closed: "closed c \<Longrightarrow> isl (fst (ReceiveString c))"
  using receive_closed [of c]
  by (cases "receive c") (auto simp: ReceiveString_def split: sum.splits frame.splits)

lemma ReceiveGetNamespaceRequest_keeps:
  "closed (snd (ReceiveGetNamespaceRequest c)) = closed c \<and>
   broken (snd (ReceiveGetNamespaceRequest c)) = broken c \<and>
   outbox (snd (ReceiveGetNamespaceRequest c)) = outbox c"
  using receive_keeps [of c]
  by (cases "receive c") (simp add: ReceiveGetNamespaceRequest_def split: sum.splits frame.splits)

lemma ReceivePutNamespaceRequest_keeps:
  "closed (snd (ReceivePutNamespaceRequest c)) = closed c \<and>
   broken (snd (ReceivePutNamespaceRequest c)) = broken c \<and>
   outbox (snd (ReceivePutNamespaceRequest c)) = outbox c"
  using receive_keeps [of c]
  by (cases "receive c") (simp add: ReceivePutNamespaceRequest_def split: sum.splits frame.splits)

lemma Send_result:
  "(fst (Send c f) = None) = (\<not> closed c \<and> \<not> broken c) \<and>
   closed (snd (Send c f)) = closed c \<and>
   outbox (snd (Send c f)) = (if closed c \<or> broken c then outbox c else outbox c @ [f])"
  by (simp add: Send_def)

lemma handleGetNamespace_Send:
  "handleGetNamespace ops e svr c r =
     (fst (Send c (GetNamespaceResponseFrame (fst (getNamespaceResponse ops e svr r)))),
      snd (getNamespaceResponse ops e svr r),
      snd (Send c (GetNamespaceResponseFrame (fst (getNamespaceResponse ops e svr r)))))"
  by (simp add: handleGetNamespace_def split: prod.splits option.splits)

lemma handlePutNamespace_Send:
  "handlePutNamespace ops svr c r =
     (fst (Send c (PutNamespaceResponseFrame (fst (putNamespaceResponse ops svr r)))),
      snd (putNamespaceResponse ops svr r),
      snd (Send c (PutNamespaceResponseFrame (fst (putNamespaceResponse ops svr r)))))"
  by (simp add: handlePutNamespace_def split: prod.splits option.splits)


lemma namespace_Handle_summary:
  "closed (snd (namespace_Handle ops e svr c)) = (\<not> requestDecodes c \<or> broken c) \<and>
   (closed (snd (namespace_Handle ops e svr c)) \<longrightarrow>
      outbox (snd (namespace_Handle ops e svr c)) = outbox c) \<and>
   (\<not> requestDecodes c \<longrightarrow> fst (namespace_Handle ops e svr c) = svr)"
proof -
  obtain res c1 where rs: "ReceiveString c = (res, c1)"
    by (cases "ReceiveString c")
  with ReceiveString_keeps [of c]
  have k1: "closed c1 = closed c" "broken c1 = broken c" "outbox c1 = outbox c"
    by simp_all
  show ?thesis
  proof (cases res)
    case (Inl err)
    with rs k1 show ?thesis
      by (simp add: namespace_Handle_def requestDecodes_def Close_def)
  next
    case (Inr m)
    with rs ReceiveString_closed [of c] have o: "\<not> closed c" by auto
    consider (get) "m = MethodGetNamespace"
      | (put) "m \<noteq> MethodGetNamespace" "m = MethodPutNamespace"
      | (other) "m \<noteq> MethodGetNamespace" "m \<noteq> MethodPutNamespace"
      by blast
    then show ?thesis
    proof cases
      case get
      obtain res2 c2 where rg: "ReceiveGetNamespaceRequest c1 = (res2, c2)"
        by (cases "ReceiveGetNamespaceRequest c1")
      with ReceiveGetNamespaceRequest_keeps [of c1] k1
      have k2: "closed c2 = closed c" "broken c2 = broken c" "outbox c2 = outbox c"
        by simp_all
      show ?thesis
      proof (cases res2)
        case (Inl err)
        with rs Inr get rg k2 show ?thesis
          by (simp add: namespace_Handle_def requestDecodes_def handleRequest_def Close_def)
      next
        case r: (Inr r)
        let ?f = "GetNamespaceResponseFrame (fst (getNamespaceResponse ops e svr r))"
        from Send_result [of c2 ?f] k2 o
        have sr: "(fst (Send c2 ?f) = None) = (\<not> broken c)"
          "closed (snd (Send c2 ?f)) = False"
          "outbox (snd (Send c2 ?f)) = (if broken c then outbox c else outbox c @ [?f])"
          by simp_all
        from rs Inr get rg r sr show ?thesis
          by (cases "fst (Send c2 ?f)")
             (simp_all add: namespace_Handle_def requestDecodes_def handleRequest_def
                handleGetNamespace_Send Close_def)
      qed
    next
      case put
      obtain res2 c2 where rp: "ReceivePutNamespaceRequest c1 = (res2, c2)"
        by (cases "ReceivePutNamespaceRequest c1")
      with ReceivePutNamespaceRequest_keeps [of c1] k1
      have k2: "closed c2 = closed c" "broken c2 = broken c" "outbox c2 = outbox c"
        by simp_all
      show ?thesis
      proof (cases res2)
        case (Inl err)
        with rs Inr put rp k2 show ?thesis
          by (simp add: namespace_Handle_def requestDecodes_def handleRequest_def Close_def)
      next
        case r: (Inr r)
        let ?f = "PutNamespaceResponseFrame (fst (putNamespaceResponse ops svr r))"
        from Send_result [of c2 ?f] k2 o
        have sr: "(fst (Send c2 ?f) = None) = (\<not> broken c)"
          "closed (snd (Send c2 ?f)) = False"
          "outbox (snd (Send c2 ?f)) = (if broken c then outbox c else outbox c @ [?f])"
          by simp_all
        from rs Inr put rp r sr show ?thesis
          by (cases "fst (Send c2 ?f)")
             (simp_all add: namespace_Handle_def requestDecodes_def handleRequest_def
                handlePutNamespace_Send Close_def)
      qed
    next
      case other
      with rs Inr k1 show ?thesis
        by (simp add: namespace_Handle_def requestDecodes_def handleRequest_def Close_def)
    qed
  qed
qed


lemma namespace_Handle_Get_broken:
  assumes "\<not> closed c" "broken c"
    and "inbox c = StringFrame MethodGetNamespace # GetNamespaceRequestFrame r # rest"
  shows "namespace_Handle ops e svr c =
     (snd (getNamespaceResponse ops e svr r), c\<lparr>inbox := rest, closed := True\<rparr>)"
  using assms
  by (simp add: namespace_Handle_def ReceiveString_def receive_open handleRequest_def
        ReceiveGetNamespaceRequest_def handleGetNamespace_Send Send_def Close_def)

lemma namespace_Handle_Put_broken:
  assumes "\<not> closed c" "broken c"
    and "inbox c = StringFrame MethodPutNamespace # PutNamespaceRequestFrame r # rest"
  shows "namespace_Handle ops e svr c =
     (snd (putNamespaceResponse ops svr r), c\<lparr>inbox := rest, closed := True\<rparr>)"
  using assms
  by (simp add: namespace_Handle_def ReceiveString_def receive_open handleRequest_def
        ReceivePutNamespaceRequest_def handlePutNamespace_Send Send_def Close_def
        MethodGetNamespace_def MethodPutNamespace_def)

section \<open>Claims\<close>




text \<open>
  C2 (the code differs). \<open>checkpoint.New\<close> drops the error of the decoder: on a config
  file that the decoder rejects after it has stored a valid \<open>type\<close>, construction
  succeeds, and on a file that is not JSON construction goes on with the zero-valued
  config and fails only in \<open>initProvider\<close>, with another error.
\<close>

theorem unmarshal_error_dropped:
  "fst (json_Unmarshal_config configFileEnv dupKeyContent \<lparr>Type = [], Config = Some []\<rparr>) =
     Some (Err ''json: cannot unmarshal number into Go struct field config.type of type string'') \<and>
   checkpoint_New configFileEnv ''/var/lib/cermanager'' =
     Inr \<lparr>root = ''/var/lib/cermanager/checkpoint'', provider = Ccfs, referenceMgr = True,
          router = [], targets = [], calls = []\<rparr> \<and>
   checkpoint_New configFileEnv ''/srv/cermanager'' =
     Inl (Err ''failed to create provider: invalid provider type'')"
  by (simp add: checkpoint_New_def configFileEnv_def quietEnv_def initProvider_def
        initProviderOf_def pathJoin_def Clean_def Wrap_def Let_def dupKeyContent_def dq_def)

text \<open>
  C3 (amended). The reference manager is set exactly when the provider is the ccfs one,
  and then \<open>Add(ref)\<close> is invoked once for every \<open>GetCheckpoint\<close> request whose body
  decodes, after \<open>Get(ref)\<close> has returned, whether it succeeded or failed.
\<close>

theorem Add_after_every_Get:
  assumes "ReceiveGetCheckpointRequest c = (Inr r, c1)"
    and "service_Get e s (Ref r) = (res, s1)"
  shows "fst (snd (handleGetCheckpoint e s c)) =
           (if referenceMgr s then s1\<lparr>calls := calls s1 @ [Add (Ref r)]\<rparr> else s1) \<and>
         (checkpoint_New e rt = Inr s \<longrightarrow> referenceMgr s = (provider s = Ccfs))"
  using handleGetCheckpoint_service [OF assms] checkpoint_New_referenceMgr [of e rt s]
  by blast

theorem Add_after_every_Get_witness:
  "ReceiveGetCheckpointRequest emptyRefRequest = (Inr \<lparr>Ref = []\<rparr>, emptyRefRequest\<lparr>inbox := []\<rparr>) \<and>
   service_Get quietEnv ccfsService (Ref \<lparr>Ref = []\<rparr>) = (Inl (Err ''empty ref''), ccfsService) \<and>
   fst (snd (handleGetCheckpoint quietEnv ccfsService emptyRefRequest)) =
     ccfsService\<lparr>calls := calls ccfsService @ [Add []]\<rparr>"
proof -
  have a: "ReceiveGetCheckpointRequest emptyRefRequest =
             (Inr \<lparr>Ref = []\<rparr>, emptyRefRequest\<lparr>inbox := []\<rparr>)"
    by (simp add: ReceiveGetCheckpointRequest_def receive_def emptyRefRequest_def)
  have b: "service_Get quietEnv ccfsService (Ref \<lparr>Ref = []\<rparr>) = (Inl (Err ''empty ref''), ccfsService)"
    by (simp add: service_Get_def)
  have c: "referenceMgr ccfsService"
    by (simp add: ccfsService_def)
  from Add_after_every_Get [OF a b] a b c show ?thesis by simp
qed

text \<open>
  The claim as stated fails: with the ccfs provider, a request for the empty ref makes
  \<open>Get\<close> fail and \<open>Add\<close> is invoked all the same.
\<close>

theorem Add_after_failed_Get:
  "service_Get quietEnv ccfsService [] = (Inl (Err ''empty ref''), ccfsService) \<and>
   handleGetCheckpoint quietEnv ccfsService emptyRefRequest =
     (None, ccfsService\<lparr>calls := [Add []]\<rparr>,
      emptyRefRequest\<lparr>inbox := [], outbox := [GetCheckpointResponseFrame \<lparr>Path = []\<rparr>]\<rparr>)"
  by (simp add: handleGetCheckpoint_def ReceiveGetCheckpointRequest_def receive_def
        service_Get_def Send_def emptyRefRequest_def ccfsService_def cpService_def)

text \<open>
  C5. \<open>Get\<close> of the empty ref fails with the error \<open>empty ref\<close> and leaves the
  service as it is: the targets are not touched and nothing is called. On a live
  connection the \<open>GetCheckpoint\<close> request for the empty ref is answered with an empty
  \<open>Path\<close>, the handler returns no error, no \<open>Prepare\<close> is invoked and the connection
  stays open.
\<close>

theorem empty_ref:
  assumes "\<not> closed c" and "\<not> broken c"
    and "inbox c = StringFrame MethodGetCheckpoint # GetCheckpointRequestFrame \<lparr>Ref = []\<rparr> # rest"
    and "MethodGetCheckpoint \<in> set (router s)"
  shows "service_Get e s [] = (Inl (Err ''empty ref''), s) \<and>
         handleGetCheckpoint e s (c\<lparr>inbox := GetCheckpointRequestFrame \<lparr>Ref = []\<rparr> # rest\<rparr>) =
           (None, if referenceMgr s then s\<lparr>calls := calls s @ [Add []]\<rparr> else s,
            c\<lparr>inbox := rest, outbox := outbox c @ [GetCheckpointResponseFrame \<lparr>Path = []\<rparr>]\<rparr>) \<and>
         targets (fst (service_Handle e s c)) = targets s \<and>
         prepareCount r (calls (fst (service_Handle e s c))) = prepareCount r (calls s) \<and>
         inbox (snd (service_Handle e s c)) = rest \<and>
         outbox (snd (service_Handle e s c)) = outbox c @ [GetCheckpointResponseFrame \<lparr>Path = []\<rparr>] \<and>
         \<not> closed (snd (service_Handle e s c))"
  using assms service_Handle_empty [OF assms, of e]
    handleGetCheckpoint_empty
      [of "c\<lparr>inbox := GetCheckpointRequestFrame \<lparr>Ref = []\<rparr> # rest\<rparr>" rest e s]
  by (simp add: service_Get_empty)

theorem empty_ref_witness:
  "\<not> closed emptyRefConn \<and> \<not> broken emptyRefConn \<and>
   inbox emptyRefConn = [StringFrame MethodGetCheckpoint, GetCheckpointRequestFrame \<lparr>Ref = []\<rparr>] \<and>
   MethodGetCheckpoint \<in> set (router cpService) \<and>
   service_Get quietEnv cpService [] = (Inl (Err ''empty ref''), cpService) \<and>
   targets (fst (service_Handle quietEnv cpService emptyRefConn)) = [] \<and>
   outbox (snd (service_Handle quietEnv cpService emptyRefConn)) =
     [GetCheckpointResponseFrame \<lparr>Path = []\<rparr>] \<and>
   \<not> closed (snd (service_Handle quietEnv cpService emptyRefConn))"
proof -
  have h: "\<not> closed emptyRefConn" "\<not> broken emptyRefConn"
    "inbox emptyRefConn = StringFrame MethodGetCheckpoint # GetCheckpointRequestFrame \<lparr>Ref = []\<rparr> # []"
    "MethodGetCheckpoint \<in> set (router cpService)"
    by (simp_all add: emptyRefConn_def cpService_def MethodGetCheckpoint_def)
  from empty_ref [OF h, of quietEnv] h show ?thesis
    by (simp add: emptyRefConn_def cpService_def)
qed

text \<open>
  C7. When \<open>Stat\<close> of the namespace config file reports that it does not exist, the
  namespace service is constructed with the default config: capacity 5 for UTS, IPC and
  MNT and no extra args. When the checkpoint config file cannot be read, as when it does
  not exist, the construction of the checkpoint service fails.
\<close>

theorem missing_config_files:
  "(os_Stat e (pathJoin [rt, ''namespace_service.json'']) = Some err \<and> IsNotExist err \<longrightarrow>
      (namespace_New e rt :: error + 'm namespaceService) =
        Inr \<lparr>ns_config = defaultConfig, managers = [], ns_root = rt\<rparr>) \<and>
   Capacity defaultConfig UTS = Some 5 \<and> Capacity defaultConfig IPC = Some 5 \<and>
   Capacity defaultConfig MNT = Some 5 \<and> Capacity defaultConfig (OtherNamespace k) = None \<and>
   ExtraArgs defaultConfig = Map.empty \<and>
   (ioutil_ReadFile e (pathJoin [rt, ''checkpoint_service.json'']) = Inl err' \<longrightarrow>
      checkpoint_New e rt = Inl (Wrap err' ''failed to read config file''))"
  by (simp add: namespace_New_def checkpoint_New_def defaultConfig_def Let_def)

theorem missing_config_files_witness:
  "os_Stat quietEnv ''/var/lib/cermanager/namespace_service.json'' =
     Some (NotExist ''/var/lib/cermanager/namespace_service.json'') \<and>
   IsNotExist (NotExist ''/var/lib/cermanager/namespace_service.json'') \<and>
   (namespace_New quietEnv ''/var/lib/cermanager'' :: error + unit namespaceService) =
     Inr \<lparr>ns_config = defaultConfig, managers = [], ns_root = ''/var/lib/cermanager''\<rparr> \<and>
   ioutil_ReadFile quietEnv ''/var/lib/cermanager/checkpoint_service.json'' =
     Inl (NotExist ''/var/lib/cermanager/checkpoint_service.json'') \<and>
   checkpoint_New quietEnv ''/var/lib/cermanager'' =
     Inl (Err ''failed to read config file: open /var/lib/cermanager/checkpoint_service.json: no such file or directory'')"
proof -
  have p1: "pathJoin [''/var/lib/cermanager'', ''namespace_service.json''] =
              ''/var/lib/cermanager/namespace_service.json''"
    by (simp add: pathJoin_def Clean_def Let_def)
  have p2: "pathJoin [''/var/lib/cermanager'', ''checkpoint_service.json''] =
              ''/var/lib/cermanager/checkpoint_service.json''"
    by (simp add: pathJoin_def Clean_def Let_def)
  have s: "os_Stat quietEnv ''/var/lib/cermanager/namespace_service.json'' =
             Some (NotExist ''/var/lib/cermanager/namespace_service.json'')"
    and r: "ioutil_ReadFile quietEnv ''/var/lib/cermanager/checkpoint_service.json'' =
              Inl (NotExist ''/var/lib/cermanager/checkpoint_service.json'')"
    by (simp_all add: quietEnv_def)
  from missing_config_files [of quietEnv "''/var/lib/cermanager''"
      "NotExist ''/var/lib/cermanager/namespace_service.json''" 0
      "NotExist ''/var/lib/cermanager/checkpoint_service.json''", where ?'m = unit]
    s r p1 p2
  show ?thesis by (simp add: Wrap_def)
qed

text \<open>
  C4 (amended). When the method of a request is \<open>Get\<close> or \<open>Put\<close>, the body decodes
  and the connection accepts the write, the errors of the request (unknown namespace
  type, error of the manager on \<open>Get\<close>, error of the manager on \<open>Put\<close>) are written
  into the response (\<open>Fd = -1\<close> with \<open>Info\<close> the message, or \<open>Error\<close> the message)
  and the handler leaves the connection open. In every other case (an unknown method, a
  method or a body that does not arrive or does not decode, a write that fails) the
  handler writes no response and closes the connection: it closes exactly in these
  cases. Unless the request decodes the service is left as it is; when only the write
  fails the manager has been called.
\<close>

theorem namespace_Handle_errors:
  "(\<not> closed c \<and> \<not> broken c \<and>
    inbox c = StringFrame MethodGetNamespace # GetNamespaceRequestFrame gr # rest \<longrightarrow>
      namespace_Handle ops e svr c =
        (snd (getNamespaceResponse ops e svr gr),
         c\<lparr>inbox := rest,
           outbox := outbox c @
             [GetNamespaceResponseFrame (fst (getNamespaceResponse ops e svr gr))]\<rparr>)) \<and>
   (\<not> closed c \<and> \<not> broken c \<and>
    inbox c = StringFrame MethodPutNamespace # PutNamespaceRequestFrame pr # rest \<longrightarrow>
      namespace_Handle ops e svr c =
        (snd (putNamespaceResponse ops svr pr),
         c\<lparr>inbox := rest,
           outbox := outbox c @
             [PutNamespaceResponseFrame (fst (putNamespaceResponse ops svr pr))]\<rparr>)) \<and>
   (map_of (managers svr) (T gr) = None \<longrightarrow>
      fst (getNamespaceResponse ops e svr gr) =
        \<lparr>NSId = 0, Pid = 0, Fd = - 1, Info = IString ''No such namespace''\<rparr>) \<and>
   (map_of (managers svr) (T gr) = Some mgr \<and>
    Manager_Get ops mgr (Arg gr) = (Inl err, mgr') \<longrightarrow>
      fst (getNamespaceResponse ops e svr gr) =
        \<lparr>NSId = 0, Pid = 0, Fd = - 1, Info = IString (Error err)\<rparr>) \<and>
   (map_of (managers svr) (PutT pr) = None \<longrightarrow>
      fst (putNamespaceResponse ops svr pr) = \<lparr>Error_field = ''No such namespace''\<rparr>) \<and>
   (map_of (managers svr) (PutT pr) = Some pmgr \<and>
    Manager_Put ops pmgr (ID pr) = (Some perr, pmgr') \<longrightarrow>
      fst (putNamespaceResponse ops svr pr) = \<lparr>Error_field = Error perr\<rparr>) \<and>
   (\<not> closed c \<and> inbox c = StringFrame m # rest \<and>
    m \<noteq> MethodGetNamespace \<and> m \<noteq> MethodPutNamespace \<longrightarrow>
      namespace_Handle ops e svr c = (svr, c\<lparr>inbox := rest, closed := True\<rparr>)) \<and>
   closed (snd (namespace_Handle ops e svr c)) = (\<not> requestDecodes c \<or> broken c) \<and>
   (closed (snd (namespace_Handle ops e svr c)) \<longrightarrow>
      outbox (snd (namespace_Handle ops e svr c)) = outbox c) \<and>
   (\<not> requestDecodes c \<longrightarrow> fst (namespace_Handle ops e svr c) = svr) \<and>
   (\<not> closed c \<and> broken c \<and>
    inbox c = StringFrame MethodGetNamespace # GetNamespaceRequestFrame gr # rest \<longrightarrow>
      namespace_Handle ops e svr c =
        (snd (getNamespaceResponse ops e svr gr), c\<lparr>inbox := rest, closed := True\<rparr>)) \<and>
   (\<not> closed c \<and> broken c \<and>
    inbox c = StringFrame MethodPutNamespace # PutNamespaceRequestFrame pr # rest \<longrightarrow>
      namespace_Handle ops e svr c =
        (snd (putNamespaceResponse ops svr pr), c\<lparr>inbox := rest, closed := True\<rparr>))"
proof -
  have g: "\<not> closed c \<and> \<not> broken c \<and>
    inbox c = StringFrame MethodGetNamespace # GetNamespaceRequestFrame gr # rest \<longrightarrow>
      namespace_Handle ops e svr c =
        (snd (getNamespaceResponse ops e svr gr),
         c\<lparr>inbox := rest,
           outbox := outbox c @
             [GetNamespaceResponseFrame (fst (getNamespaceResponse ops e svr gr))]\<rparr>)"
    using namespace_Handle_Get [of c gr rest ops e svr] by blast
  have p: "\<not> closed c \<and> \<not> broken c \<and>
    inbox c = StringFrame MethodPutNamespace # PutNamespaceRequestFrame pr # rest \<longrightarrow>
      namespace_Handle ops e svr c =
        (snd (putNamespaceResponse ops svr pr),
         c\<lparr>inbox := rest,
           outbox := outbox c @
             [PutNamespaceResponseFrame (fst (putNamespaceResponse ops svr pr))]\<rparr>)"
    using namespace_Handle_Put [of c pr rest ops e svr] by blast
  have u: "\<not> closed c \<and> inbox c = StringFrame m # rest \<and>
    m \<noteq> MethodGetNamespace \<and> m \<noteq> MethodPutNamespace \<longrightarrow>
      namespace_Handle ops e svr c = (svr, c\<lparr>inbox := rest, closed := True\<rparr>)"
    using namespace_Handle_unknown_method [of c m rest ops e svr] by blast
  have gb: "\<not> closed c \<and> broken c \<and>
    inbox c = StringFrame MethodGetNamespace # GetNamespaceRequestFrame gr # rest \<longrightarrow>
      namespace_Handle ops e svr c =
        (snd (getNamespaceResponse ops e svr gr), c\<lparr>inbox := rest, closed := True\<rparr>)"
    using namespace_Handle_Get_broken [of c gr rest ops e svr] by blast
  have pb: "\<not> closed c \<and> broken c \<and>
    inbox c = StringFrame MethodPutNamespace # PutNamespaceRequestFrame pr # rest \<longrightarrow>
      namespace_Handle ops e svr c =
        (snd (putNamespaceResponse ops svr pr), c\<lparr>inbox := rest, closed := True\<rparr>)"
    using namespace_Handle_Put_broken [of c pr rest ops e svr] by blast
  have r1: "map_of (managers svr) (T gr) = None \<longrightarrow>
      fst (getNamespaceResponse ops e svr gr) =
        \<lparr>NSId = 0, Pid = 0, Fd = - 1, Info = IString ''No such namespace''\<rparr>"
    by (simp add: getNamespaceResponse_unknown)
  have r2: "map_of (managers svr) (T gr) = Some mgr \<and>
    Manager_Get ops mgr (Arg gr) = (Inl err, mgr') \<longrightarrow>
      fst (getNamespaceResponse ops e svr gr) =
        \<lparr>NSId = 0, Pid = 0, Fd = - 1, Info = IString (Error err)\<rparr>"
    by (simp add: getNamespaceResponse_error)
  have r3: "map_of (managers svr) (PutT pr) = None \<longrightarrow>
      fst (putNamespaceResponse ops svr pr) = \<lparr>Error_field = ''No such namespace''\<rparr>"
    by (simp add: putNamespaceResponse_unknown)
  have r4: "map_of (managers svr) (PutT pr) = Some pmgr \<and>
    Manager_Put ops pmgr (ID pr) = (Some perr, pmgr') \<longrightarrow>
      fst (putNamespaceResponse ops svr pr) = \<lparr>Error_field = Error perr\<rparr>"
    by (simp add: putNamespaceResponse_error)
  note sm = namespace_Handle_summary [of ops e svr c]
  have s1: "closed (snd (namespace_Handle ops e svr c)) = (\<not> requestDecodes c \<or> broken c)"
    using sm by (rule conjunct1)
  have s2: "closed (snd (namespace_Handle ops e svr c)) \<longrightarrow>
      outbox (snd (namespace_Handle ops e svr c)) = outbox c"
    using sm by (rule conjunct1 [OF conjunct2])
  have s3: "\<not> requestDecodes c \<longrightarrow> fst (namespace_Handle ops e svr c) = svr"
    using sm by (rule conjunct2 [OF conjunct2])
  show ?thesis
    by (intro conjI) (rule g p r1 r2 r3 r4 u s1 s2 s3 gb pb)+
qed

theorem namespace_Handle_errors_witness:
  "\<not> closed (liveConn [StringFrame MethodGetNamespace, GetNamespaceRequestFrame \<lparr>T = IPC, Arg = INil\<rparr>]) \<and>
   \<not> broken (liveConn [StringFrame MethodGetNamespace, GetNamespaceRequestFrame \<lparr>T = IPC, Arg = INil\<rparr>]) \<and>
   map_of (managers nsService) IPC = Some emptyPool \<and>
   Manager_Get poolManager emptyPool INil = (Inl (Err ''Exhausted''), emptyPool) \<and>
   requestDecodes (liveConn [StringFrame MethodGetNamespace, GetNamespaceRequestFrame \<lparr>T = IPC, Arg = INil\<rparr>]) \<and>
   namespace_Handle poolManager quietEnv nsService
     (liveConn [StringFrame MethodGetNamespace, GetNamespaceRequestFrame \<lparr>T = IPC, Arg = INil\<rparr>]) =
     (nsService,
      \<lparr>inbox = [],
       outbox = [GetNamespaceResponseFrame \<lparr>NSId = 0, Pid = 0, Fd = - 1, Info = IString ''Exhausted''\<rparr>],
       closed = False, broken = False\<rparr>) \<and>
   broken (brokenConn [StringFrame MethodGetNamespace, GetNamespaceRequestFrame \<lparr>T = IPC, Arg = INil\<rparr>]) \<and>
   closed (snd (namespace_Handle poolManager quietEnv nsService
     (brokenConn [StringFrame MethodGetNamespace, GetNamespaceRequestFrame \<lparr>T = IPC, Arg = INil\<rparr>]))) \<and>
   \<not> requestDecodes (liveConn [StringFrame MethodGetNamespace, Malformed]) \<and>
   namespace_Handle poolManager quietEnv nsService
     (liveConn [StringFrame MethodGetNamespace, Malformed]) =
     (nsService, \<lparr>inbox = [], outbox = [], closed = True, broken = False\<rparr>)"
proof -
  let ?c = "liveConn [StringFrame MethodGetNamespace, GetNamespaceRequestFrame \<lparr>T = IPC, Arg = INil\<rparr>]"
  let ?b = "brokenConn [StringFrame MethodGetNamespace, GetNamespaceRequestFrame \<lparr>T = IPC, Arg = INil\<rparr>]"
  let ?m = "liveConn [StringFrame MethodGetNamespace, Malformed]"
  have h: "\<not> closed ?c" "\<not> broken ?c" "broken ?b"
    "inbox ?c = StringFrame MethodGetNamespace # GetNamespaceRequestFrame \<lparr>T = IPC, Arg = INil\<rparr> # []"
    by (simp_all add: liveConn_def brokenConn_def)
  have m: "map_of (managers nsService) IPC = Some emptyPool"
    "Manager_Get poolManager emptyPool INil = (Inl (Err ''Exhausted''), emptyPool)"
    by (simp_all add: nsService_def poolManager_def Pool_Get_def emptyPool_def)
  have d: "requestDecodes ?c" "\<not> requestDecodes ?m"
    by (simp_all add: requestDecodes_def ReceiveString_def ReceiveGetNamespaceRequest_def
          receive_def liveConn_def)
  have u: "AList.update IPC emptyPool (managers nsService) = managers nsService"
    by (simp add: nsService_def)
  from namespace_Handle_errors [of ?c "\<lparr>T = IPC, Arg = INil\<rparr>" "[]" poolManager quietEnv
      nsService _ emptyPool "Err ''Exhausted''" emptyPool] h m u
  have a: "namespace_Handle poolManager quietEnv nsService ?c =
     (nsService,
      \<lparr>inbox = [],
       outbox = [GetNamespaceResponseFrame \<lparr>NSId = 0, Pid = 0, Fd = - 1, Info = IString ''Exhausted''\<rparr>],
       closed = False, broken = False\<rparr>)"
    by (simp add: liveConn_def getNamespaceResponse_error)
  from namespace_Handle_errors [of ?b _ _ poolManager quietEnv nsService] h
  have b: "closed (snd (namespace_Handle poolManager quietEnv nsService ?b))"
    by simp
  have c: "namespace_Handle poolManager quietEnv nsService ?m =
     (nsService, \<lparr>inbox = [], outbox = [], closed = True, broken = False\<rparr>)"
    by (simp add: namespace_Handle_def ReceiveString_def receive_def handleRequest_def
          ReceiveGetNamespaceRequest_def Close_def liveConn_def)
  from a b c d h m show ?thesis by simp
qed

text \<open>
  The claim as stated fails: a request with the method \<open>Delete\<close> is not answered and the
  handler closes the connection; and a \<open>Get\<close> request for an unknown namespace type on
  a connection whose writes fail is not answered either, and the handler closes the
  connection, with no codec violation.
\<close>

theorem unknown_method_closes:
  "namespace_Handle poolManager quietEnv nsService
     (liveConn [StringFrame ''Delete'', PutNamespaceRequestFrame \<lparr>PutT = UTS, ID = 0\<rparr>]) =
   (nsService,
    \<lparr>inbox = [PutNamespaceRequestFrame \<lparr>PutT = UTS, ID = 0\<rparr>], outbox = [],
     closed = True, broken = False\<rparr>) \<and>
   namespace_Handle poolManager quietEnv nsService
     (brokenConn [StringFrame ''Get'', GetNamespaceRequestFrame \<lparr>T = OtherNamespace 7, Arg = INil\<rparr>]) =
   (nsService, \<lparr>inbox = [], outbox = [], closed = True, broken = True\<rparr>)"
  by (simp add: namespace_Handle_def ReceiveString_def receive_def handleRequest_def
        ReceiveGetNamespaceRequest_def handleGetNamespace_def getNamespaceResponse_def
        Send_def nsService_def
        MethodGetNamespace_def MethodPutNamespace_def Close_def liveConn_def brokenConn_def)

text \<open>
  C6. A namespace \<open>Get\<close> request whose type has no registered manager is answered with
  \<open>Fd = -1\<close> and \<open>Info\<close> the string \<open>No such namespace\<close>, and the service, with every manager
  in it, is left as it is, whether or not the response can be written. When the manager
  returns an error the response has \<open>Fd = -1\<close> and \<open>Info\<close> the message of the error.
  On a connection that accepts writes the response built is the one written.
\<close>

theorem Get_unknown_type:
  "(map_of (managers svr) (T r) = None \<longrightarrow>
      getNamespaceResponse ops e svr r =
        (\<lparr>NSId = 0, Pid = 0, Fd = - 1, Info = IString ''No such namespace''\<rparr>, svr) \<and>
      fst (snd (handleGetNamespace ops e svr c r)) = svr) \<and>
   (map_of (managers svr) (T r) = Some mgr \<and> Manager_Get ops mgr (Arg r) = (Inl err, mgr') \<longrightarrow>
      fst (getNamespaceResponse ops e svr r) =
        \<lparr>NSId = 0, Pid = 0, Fd = - 1, Info = IString (Error err)\<rparr>) \<and>
   (\<not> closed c \<and> \<not> broken c \<longrightarrow>
      handleGetNamespace ops e svr c r =
        (None, snd (getNamespaceResponse ops e svr r),
         c\<lparr>outbox := outbox c @
            [GetNamespaceResponseFrame (fst (getNamespaceResponse ops e svr r))]\<rparr>))"
  using handleGetNamespace_service [of ops e svr c r] handleGetNamespace_open [of c ops e svr r]
  by (simp add: getNamespaceResponse_unknown getNamespaceResponse_error)

theorem Get_unknown_type_witness:
  "map_of (managers nsService) (OtherNamespace 7) = None \<and>
   \<not> closed (liveConn []) \<and> \<not> broken (liveConn []) \<and>
   handleGetNamespace poolManager quietEnv nsService (liveConn [])
     \<lparr>T = OtherNamespace 7, Arg = INil\<rparr> =
     (None, nsService,
      \<lparr>inbox = [],
       outbox = [GetNamespaceResponseFrame
                  \<lparr>NSId = 0, Pid = 0, Fd = - 1, Info = IString ''No such namespace''\<rparr>],
       closed = False, broken = False\<rparr>) \<and>
   map_of (managers nsService) IPC = Some emptyPool \<and>
   Manager_Get poolManager emptyPool INil = (Inl (Err ''Exhausted''), emptyPool) \<and>
   fst (getNamespaceResponse poolManager quietEnv nsService \<lparr>T = IPC, Arg = INil\<rparr>) =
     \<lparr>NSId = 0, Pid = 0, Fd = - 1, Info = IString ''Exhausted''\<rparr>"
proof -
  have u: "map_of (managers nsService) (OtherNamespace 7) = None"
    and m: "map_of (managers nsService) IPC = Some emptyPool"
    "Manager_Get poolManager emptyPool INil = (Inl (Err ''Exhausted''), emptyPool)"
    by (simp_all add: nsService_def poolManager_def Pool_Get_def emptyPool_def)
  have h: "\<not> closed (liveConn [])" "\<not> broken (liveConn [])"
    by (simp_all add: liveConn_def)
  from Get_unknown_type [of nsService "\<lparr>T = OtherNamespace 7, Arg = INil\<rparr>" poolManager quietEnv
      "liveConn []"] u h
  have a: "handleGetNamespace poolManager quietEnv nsService (liveConn [])
     \<lparr>T = OtherNamespace 7, Arg = INil\<rparr> =
     (None, nsService,
      \<lparr>inbox = [],
       outbox = [GetNamespaceResponseFrame
                  \<lparr>NSId = 0, Pid = 0, Fd = - 1, Info = IString ''No such namespace''\<rparr>],
       closed = False, broken = False\<rparr>)"
    by (simp add: liveConn_def)
  from Get_unknown_type [of nsService "\<lparr>T = IPC, Arg = INil\<rparr>" poolManager quietEnv
      "liveConn []" emptyPool "Err ''Exhausted''" emptyPool] m
  have b: "fst (getNamespaceResponse poolManager quietEnv nsService \<lparr>T = IPC, Arg = INil\<rparr>) =
     \<lparr>NSId = 0, Pid = 0, Fd = - 1, Info = IString ''Exhausted''\<rparr>"
    by simp
  from a b u m h show ?thesis by simp
qed

text \<open>
  C10. The process id of the daemon is not 0. In the response to a namespace \<open>Get\<close>
  request, \<open>Pid\<close> is the daemon's process id exactly when the \<open>Get\<close> succeeded; when
  it failed (no manager for the type, or an error of the manager) \<open>Pid\<close> and \<open>NSId\<close>
  are 0 and \<open>Fd\<close> is -1.
\<close>

theorem Pid_iff_success:
  assumes "os_Getpid e \<noteq> 0"
  shows "(Pid (fst (getNamespaceResponse ops e svr r)) = os_Getpid e) = getSucceeds ops svr r \<and>
         (\<not> getSucceeds ops svr r \<longrightarrow>
            Pid (fst (getNamespaceResponse ops e svr r)) = 0 \<and>
            NSId (fst (getNamespaceResponse ops e svr r)) = 0 \<and>
            Fd (fst (getNamespaceResponse ops e svr r)) = - 1) \<and>
         (\<not> closed c \<and> \<not> broken c \<longrightarrow>
            outbox (snd (snd (handleGetNamespace ops e svr c r))) =
              outbox c @ [GetNamespaceResponseFrame (fst (getNamespaceResponse ops e svr r))])"
proof -
  have "(Pid (fst (getNamespaceResponse ops e svr r)) = os_Getpid e) = getSucceeds ops svr r"
    using assms getNamespaceResponse_failed [of ops svr r e]
      getNamespaceResponse_succeeded [of ops svr r e]
    by (cases "getSucceeds ops svr r") auto
  then show ?thesis
    using getNamespaceResponse_failed [of ops svr r e] handleGetNamespace_open [of c ops e svr r]
    by simp
qed

theorem Pid_iff_success_witness:
  "os_Getpid quietEnv \<noteq> 0 \<and>
   getSucceeds poolManager nsService \<lparr>T = UTS, Arg = INil\<rparr> \<and>
   fst (getNamespaceResponse poolManager quietEnv nsService \<lparr>T = UTS, Arg = INil\<rparr>) =
     \<lparr>NSId = 0, Pid = 4242, Fd = 10, Info = INil\<rparr> \<and>
   \<not> getSucceeds poolManager nsService \<lparr>T = MNT, Arg = INil\<rparr> \<and>
   Pid (fst (getNamespaceResponse poolManager quietEnv nsService \<lparr>T = MNT, Arg = INil\<rparr>)) = 0 \<and>
   NSId (fst (getNamespaceResponse poolManager quietEnv nsService \<lparr>T = MNT, Arg = INil\<rparr>)) = 0 \<and>
   Fd (fst (getNamespaceResponse poolManager quietEnv nsService \<lparr>T = MNT, Arg = INil\<rparr>)) = - 1"
proof -
  have p: "os_Getpid quietEnv \<noteq> 0"
    by (simp add: quietEnv_def)
  have s: "getSucceeds poolManager nsService \<lparr>T = UTS, Arg = INil\<rparr>"
    and f: "\<not> getSucceeds poolManager nsService \<lparr>T = MNT, Arg = INil\<rparr>"
    by (simp_all add: getSucceeds_def nsService_def poolManager_def Pool_Get_def utsPool_def
          emptyPool_def)
  have r: "fst (getNamespaceResponse poolManager quietEnv nsService \<lparr>T = UTS, Arg = INil\<rparr>) =
     \<lparr>NSId = 0, Pid = 4242, Fd = 10, Info = INil\<rparr>"
    by (simp add: getNamespaceResponse_def nsService_def poolManager_def Pool_Get_def utsPool_def
          quietEnv_def)
  from Pid_iff_success [OF p, of poolManager nsService "\<lparr>T = MNT, Arg = INil\<rparr>"] p s f r
  show ?thesis by simp
qed

text \<open>
  C8. \<open>Stop\<close> of the checkpoint service invokes \<open>Remove\<close> once for every target in
  the targets map (the keys of a map are distinct, and \<open>Get\<close> keeps them so), whatever
  the outcomes of the removals. It returns no error exactly when no removal failed, and
  otherwise the error that joins the messages of the failed removals. \<open>Shutdown\<close>
  stops every service of the server, whatever \<open>Stop\<close> of another service returned.
\<close>

theorem Stop_removes_every_target:
  assumes "distinct (targets s)"
  shows "calls (snd (service_Stop e s)) = calls s @ map Remove (targets s) \<and>
         (\<forall>t \<in> set (targets s). count_list (map Remove (targets s)) (Remove t) = 1) \<and>
         (fst (service_Stop e s) = None) =
           (\<forall>i < length (targets s). removeOutcome e s i = None) \<and>
         (fst (service_Stop e s) \<noteq> None \<longrightarrow>
            fst (service_Stop e s) =
              Some (Err (stringsJoin (concat (map (removeMessage e s) [0..<length (targets s)])) '';''))) \<and>
         distinct (targets (snd (service_Get e s ref))) \<and>
         services (snd (Shutdown ops e S)) =
           map (\<lambda>(t, svc). (t, snd (Service_Stop ops e svc))) (services S) \<and>
         Service_Stop ops e (CheckpointSvc s) =
           (fst (service_Stop e s), CheckpointSvc (snd (service_Stop e s)))"
proof -
  have n: "(concat (map (removeMessage e s) [0..<length (targets s)]) = []) =
             (\<forall>i < length (targets s). removeOutcome e s i = None)"
    by (auto simp: removeMessage_def split: option.splits)
  from assms n show ?thesis
    by (simp add: service_Stop_eq Let_def count_Remove_distinct service_Get_distinct
          Shutdown_services Service_Stop_checkpoint)
qed


theorem Stop_removes_every_target_witness:
  "distinct (targets twoTargets) \<and>
   fst (service_Gets quietEnv cpService [''img-A'', ''img-B'']) =
     [Inr ''/var/lib/cermanager/checkpoint/img-A'', Inr ''/var/lib/cermanager/checkpoint/img-B''] \<and>
   snd (service_Gets quietEnv cpService [''img-A'', ''img-B'']) = twoTargets \<and>
   service_Stop busyEnv twoTargets =
     (Some (Err ''remove /var/lib/cermanager/checkpoint/img-A with error device busy''),
      twoTargets\<lparr>calls := calls twoTargets @
         [Remove ''/var/lib/cermanager/checkpoint/img-A'',
          Remove ''/var/lib/cermanager/checkpoint/img-B'']\<rparr>) \<and>
   count_list (map Remove (targets twoTargets)) (Remove ''/var/lib/cermanager/checkpoint/img-A'') = 1 \<and>
   count_list (map Remove (targets twoTargets)) (Remove ''/var/lib/cermanager/checkpoint/img-B'') = 1 \<and>
   fst (Shutdown poolManager busyEnv twoServices) =
     [(CheckpointService,
       Err ''remove /var/lib/cermanager/checkpoint/img-A with error device busy'')] \<and>
   services (snd (Shutdown poolManager busyEnv twoServices)) =
     [(CheckpointService, CheckpointSvc (snd (service_Stop busyEnv twoTargets))),
      (NamespaceService, NamespaceSvc (snd (namespace_Stop poolManager nsService)))]"
proof -
  have d: "distinct (targets twoTargets)"
    by (simp add: twoTargets_def)
  have g: "service_Gets quietEnv cpService [''img-A'', ''img-B''] =
     ([Inr ''/var/lib/cermanager/checkpoint/img-A'', Inr ''/var/lib/cermanager/checkpoint/img-B''],
      twoTargets)"
    by (simp add: service_Get_def quietEnv_def cpService_def twoTargets_def pathJoin_def
          Clean_def Let_def)
  have st: "service_Stop busyEnv twoTargets =
     (Some (Err ''remove /var/lib/cermanager/checkpoint/img-A with error device busy''),
      twoTargets\<lparr>calls := calls twoTargets @
         [Remove ''/var/lib/cermanager/checkpoint/img-A'',
          Remove ''/var/lib/cermanager/checkpoint/img-B'']\<rparr>)"
    by (simp add: service_Stop_def busyEnv_def quietEnv_def twoTargets_def cpService_def)
  have sh: "fst (Shutdown poolManager busyEnv twoServices) =
     [(CheckpointService,
       Err ''remove /var/lib/cermanager/checkpoint/img-A with error device busy'')]"
    by (simp add: Shutdown_def twoServices_def Service_Stop_def st namespace_Stop_def)
  from Stop_removes_every_target [OF d, of busyEnv _ poolManager twoServices] d g st sh
  show ?thesis
    by (simp add: twoServices_def Service_Stop_def namespace_Stop_def twoTargets_def)
qed

text \<open>
  C9. When a connection sends a service type for which no service is registered, the
  handler closes the connection, answers nothing and leaves the server as it is; nothing
  is sent on the error channel, and the accept loop goes on with the connections that
  follow exactly as it would have from the same server without this connection.
\<close>

theorem unknown_service_type:
  assumes "\<not> closed c" and "inbox c = ServiceTypeFrame t # rest"
    and "map_of (services s) t = None"
  shows "serve ctxDone ops e s c n = (s, c\<lparr>inbox := rest, closed := True\<rparr>) \<and>
         Start acceptDone serveDone ops e s (Inr c # later) k =
           (if acceptDone k then ([], s, [c\<lparr>inbox := rest, closed := True\<rparr>])
            else (fst (Start acceptDone serveDone ops e s later (Suc k)),
                  fst (snd (Start acceptDone serveDone ops e s later (Suc k))),
                  c\<lparr>inbox := rest, closed := True\<rparr> #
                    snd (snd (Start acceptDone serveDone ops e s later (Suc k)))))"
  using serve_unknown [OF assms]
  by (simp split: prod.splits)

theorem unknown_service_type_witness:
  "\<not> closed strayConn \<and>
   inbox strayConn =
     [ServiceTypeFrame (OtherService 9), StringFrame MethodGetNamespace,
      GetNamespaceRequestFrame \<lparr>T = UTS, Arg = INil\<rparr>] \<and>
   map_of (services twoServices) (OtherService 9) = None \<and>
   serve notCancelled poolManager quietEnv twoServices strayConn 0 =
     (twoServices,
      \<lparr>inbox = [StringFrame MethodGetNamespace, GetNamespaceRequestFrame \<lparr>T = UTS, Arg = INil\<rparr>],
       outbox = [], closed = True, broken = False\<rparr>) \<and>
   fst (Start notCancelled (\<lambda>k. notCancelled) poolManager quietEnv twoServices
          [Inr strayConn, Inr utsConn] 0) = [] \<and>
   snd (snd (Start notCancelled (\<lambda>k. notCancelled) poolManager quietEnv twoServices
               [Inr strayConn, Inr utsConn] 0)) =
     [\<lparr>inbox = [StringFrame MethodGetNamespace, GetNamespaceRequestFrame \<lparr>T = UTS, Arg = INil\<rparr>],
       outbox = [], closed = True, broken = False\<rparr>,
      \<lparr>inbox = [],
       outbox = [GetNamespaceResponseFrame \<lparr>NSId = 0, Pid = 4242, Fd = 10, Info = INil\<rparr>],
       closed = True, broken = False\<rparr>]"
proof -
  have h: "\<not> closed strayConn"
    "inbox strayConn = ServiceTypeFrame (OtherService 9) #
       [StringFrame MethodGetNamespace, GetNamespaceRequestFrame \<lparr>T = UTS, Arg = INil\<rparr>]"
    "map_of (services twoServices) (OtherService 9) = None"
    by (simp_all add: strayConn_def liveConn_def twoServices_def)
  have sv: "snd (serve notCancelled poolManager quietEnv twoServices utsConn 0) =
     \<lparr>inbox = [],
      outbox = [GetNamespaceResponseFrame \<lparr>NSId = 0, Pid = 4242, Fd = 10, Info = INil\<rparr>],
      closed = True, broken = False\<rparr>"
    apply (subst serve.simps)
    apply (simp add: utsConn_def liveConn_def ReceiveServiceType_def receive_def dispatch_def
        twoServices_def Service_Handle_def namespace_Handle_def ReceiveString_def
        handleRequest_def ReceiveGetNamespaceRequest_def handleGetNamespace_def
        getNamespaceResponse_def nsService_def poolManager_def Pool_Get_def utsPool_def
        Send_def quietEnv_def notCancelled_def MethodGetNamespace_def)
    apply (subst serve.simps)
    apply (simp add: ReceiveServiceType_def receive_def Close_def)
    done
  from unknown_service_type [OF h, of notCancelled poolManager quietEnv 0 notCancelled
      "\<lambda>k. notCancelled" "[Inr utsConn]" 0] h sv
  show ?thesis
    by (simp add: notCancelled_def strayConn_def liveConn_def split: prod.splits)
qed

end
